theory Spec2Isabelle
  imports Complex_Main "HOL-Library.Word" "HOL-Library.Sublist"
begin

section \<open>The browser objects the real-time client owns\<close>

text \<open>
  \<^verbatim>\<open>LiveClient\<close> (the real-time audio client) holds references to objects of the
  browser: two audio contexts, the microphone stream and its tracks, two nodes of the
  capture graph, the playback sources it has scheduled and the remote session. The
  objects live in an explicit store, the \<open>world\<close>, keyed by reference; the client's
  fields hold references (or \<open>None\<close> for \<^verbatim>\<open>null\<close>). A method of the class is a
  function from the client and the world to the new client and the new world. A
  method that throws still returns both: JavaScript does not undo the assignments
  made before the \<^verbatim>\<open>throw\<close>.

  Each handler is run to completion: the interleaving of another handler at an
  \<^verbatim>\<open>await\<close> is not part of the model. Times and samples are real numbers, where the
  program computes with IEEE doubles.
\<close>

type_synonym ref = nat

datatype error = Error string

datatype context_state = Suspended | Running | Closed

record AudioContext =
  ctx_state :: context_state
  currentTime :: real
  sampleRate :: nat

datatype track_kind = AudioKind | VideoKind

record MediaStreamTrack =
  kind :: track_kind
  enabled :: bool
  ended :: bool

text \<open>
  An \<^verbatim>\<open>AudioBuffer\<close> has a number of sample frames and a sample rate; the browser
  defines its read-only \<^verbatim>\<open>duration\<close> as their quotient (\<open>buf_duration\<close>).
\<close>

record AudioBuffer =
  buf_length :: nat
  buf_sampleRate :: nat

definition buf_duration :: "AudioBuffer \<Rightarrow> real" where
  "buf_duration b = real (buf_length b) / real (buf_sampleRate b)"

record AudioBufferSourceNode =
  src_buffer :: AudioBuffer
  startedAt :: "real option"
  stopped :: bool

text \<open>
  A number handed to the visualiser callback: \<^verbatim>\<open>NaN\<close> arises from \<^verbatim>\<open>0 / 0\<close> on an
  empty block of samples.
\<close>

datatype js_number = NaN | Num real

datatype callback =
    OnAudioData js_number
  | OnTranscript string bool
  | OnClose

text \<open>
  \<^verbatim>\<open>createPcmBlob\<close> belongs to \<^verbatim>\<open>utils/audioUtils\<close>; the blob it
  builds is represented by its two arguments, the samples and the capture rate.
\<close>

datatype pcm_blob = PcmBlob "real list" nat

text \<open>
  A settled promise of \<^verbatim>\<open>client.live.connect\<close> is represented by its outcome: a
  session object (\<open>None\<close> for a value that has no \<^verbatim>\<open>close\<close> function) or a
  rejection. This is what the field \<^verbatim>\<open>sessionPromise\<close> of the record below holds. A
  promise that has not settled yet has no outcome; the clients whose promise is pending
  are the \<open>InFlight\<close> states of the section on a pending session promise.
\<close>

datatype promise = Fulfilled "ref option" | Rejected error

record world =
  next_ref :: ref
  contexts :: "ref \<Rightarrow> AudioContext"
  tracks :: "ref \<Rightarrow> MediaStreamTrack"
  node_connected :: "ref \<Rightarrow> bool"
  sources :: "ref \<Rightarrow> AudioBufferSourceNode"
  session_closed :: "ref \<Rightarrow> bool"
  mic_requests :: nat
  sessions_opened :: nat
  emitted :: "callback list"
  sent :: "(ref \<times> pcm_blob) list"
  started :: "(real \<times> real) list"

record LiveClient =
  inputAudioContext :: "ref option"
  outputAudioContext :: "ref option"
  nextStartTime :: real
  stream :: "ref list option"
  sessionPromise :: "promise option"
  scriptProcessor :: "ref option"
  sourceNode :: "ref option"
  isConnected :: bool
  audioQueue :: "ref list"

text \<open>The field initialisers of the class.\<close>

definition new_LiveClient :: LiveClient where
  "new_LiveClient =
     \<lparr>inputAudioContext = None, outputAudioContext = None, nextStartTime = 0,
      stream = None, sessionPromise = None, scriptProcessor = None, sourceNode = None,
      isConnected = False, audioQueue = []\<rparr>"

definition emit :: "callback \<Rightarrow> world \<Rightarrow> world" where
  "emit cb w = w\<lparr>emitted := emitted w @ [cb]\<rparr>"

subsection \<open>Operations of the browser objects\<close>

definition new_context :: "nat \<Rightarrow> AudioContext" where
  "new_context rate = \<lparr>ctx_state = Suspended, currentTime = 0, sampleRate = rate\<rparr>"

definition resume :: "ref \<Rightarrow> world \<Rightarrow> world" where
  "resume r w = w\<lparr>contexts := (contexts w)(r := (contexts w r)\<lparr>ctx_state := Running\<rparr>)\<rparr>"

definition close_context :: "ref \<Rightarrow> world \<Rightarrow> world" where
  "close_context r w = w\<lparr>contexts := (contexts w)(r := (contexts w r)\<lparr>ctx_state := Closed\<rparr>)\<rparr>"

definition new_track :: "track_kind \<Rightarrow> MediaStreamTrack" where
  "new_track k = \<lparr>kind = k, enabled = True, ended = False\<rparr>"

definition stop_source :: "ref \<Rightarrow> world \<Rightarrow> world" where
  "stop_source r w = w\<lparr>sources := (sources w)(r := (sources w r)\<lparr>stopped := True\<rparr>)\<rparr>"

definition stop_track :: "ref \<Rightarrow> world \<Rightarrow> world" where
  "stop_track r w = w\<lparr>tracks := (tracks w)(r := (tracks w r)\<lparr>ended := True\<rparr>)\<rparr>"

definition set_enabled :: "bool \<Rightarrow> ref \<Rightarrow> world \<Rightarrow> world" where
  "set_enabled b r w = w\<lparr>tracks := (tracks w)(r := (tracks w r)\<lparr>enabled := b\<rparr>)\<rparr>"

definition disconnect_node :: "ref \<Rightarrow> world \<Rightarrow> world" where
  "disconnect_node r w = w\<lparr>node_connected := (node_connected w)(r := False)\<rparr>"

definition connect_node :: "ref \<Rightarrow> world \<Rightarrow> world" where
  "connect_node r w = w\<lparr>node_connected := (node_connected w)(r := True)\<rparr>"

definition close_session :: "ref \<Rightarrow> world \<Rightarrow> world" where
  "close_session r w = w\<lparr>session_closed := (session_closed w)(r := True)\<rparr>"

definition getTracks :: "ref list \<Rightarrow> ref list" where
  "getTracks st = st"

definition getAudioTracks :: "world \<Rightarrow> ref list \<Rightarrow> ref list" where
  "getAudioTracks w st = filter (\<lambda>t. kind (tracks w t) = AudioKind) st"

section \<open>\<^verbatim>\<open>LiveClient.handleOpen\<close>\<close>

text \<open>
  The callback given to the SDK as \<^verbatim>\<open>onopen\<close>: it builds the capture graph, unless
  the client has lost its input context, its stream or its session promise.
\<close>

definition handleOpen :: "LiveClient \<times> world \<Rightarrow> LiveClient \<times> world" where
  "handleOpen s =
     (case s of (c, w) \<Rightarrow>
        if inputAudioContext c = None \<or> stream c = None \<or> sessionPromise c = None
        then (c, w)
        else
          let sn = next_ref w;
              sp = Suc sn;
              w1 = w\<lparr>next_ref := Suc sp,
                     node_connected := (node_connected w)(sn := False, sp := False)\<rparr>;
              c1 = c\<lparr>sourceNode := Some sn, scriptProcessor := Some sp\<rparr>
          in (c1, connect_node sp (connect_node sn w1)))"

section \<open>\<^verbatim>\<open>LiveClient.connect\<close>\<close>

text \<open>
  What the environment answers during one \<^verbatim>\<open>connect()\<close>: whether the browser has an
  \<^verbatim>\<open>AudioContext\<close> class, the device's sample rate, the outcome of
  \<^verbatim>\<open>getUserMedia\<close> (the kinds of the tracks of the granted stream) and whether the
  remote endpoint rejects the session. When the session opens, the SDK calls the
  \<^verbatim>\<open>onopen\<close> callback it was given, \<^verbatim>\<open>handleOpen\<close>, before the promise resolves.
\<close>

record connect_env =
  audio_supported :: bool
  device_rate :: nat
  mic :: "error + track_kind list"
  remote :: "error option"

definition grant_track ::
  "ref \<times> track_kind \<Rightarrow> (ref \<Rightarrow> MediaStreamTrack) \<Rightarrow> ref \<Rightarrow> MediaStreamTrack" where
  "grant_track rk f = f(fst rk := new_track (snd rk))"

definition grant_stream :: "track_kind list \<Rightarrow> world \<Rightarrow> ref list \<times> world" where
  "grant_stream ks w =
     (let rs = [next_ref w ..< next_ref w + length ks]
      in (rs, w\<lparr>next_ref := next_ref w + length ks,
                tracks := fold grant_track (zip rs ks) (tracks w)\<rparr>))"

definition connect ::
  "connect_env \<Rightarrow> LiveClient \<times> world \<Rightarrow> error option \<times> LiveClient \<times> world" where
  "connect env s =
     (case s of (c, w) \<Rightarrow>
        if isConnected c then (None, c, w)
        else if \<not> audio_supported env
        then (Some (Error ''AudioContext not supported in this browser''), c, w)
        else
          let i = next_ref w;
              out = Suc i;
              w1 = w\<lparr>next_ref := Suc out,
                     contexts := (contexts w)
                       (i := new_context (device_rate env), out := new_context (device_rate env))\<rparr>;
              c1 = c\<lparr>inputAudioContext := Some i, outputAudioContext := Some out\<rparr>;
              w2 = resume out (resume i w1);
              w3 = w2\<lparr>mic_requests := Suc (mic_requests w2)\<rparr>
          in (case mic env of
                Inl e \<Rightarrow> (Some e, c1, w3)
              | Inr ks \<Rightarrow>
                  let (st, w4) = grant_stream ks w3;
                      c2 = c1\<lparr>stream := Some st\<rparr>;
                      w5 = w4\<lparr>sessions_opened := Suc (sessions_opened w4)\<rparr>
                  in (case remote env of
                        Some e \<Rightarrow> (Some e, c2\<lparr>sessionPromise := Some (Rejected e)\<rparr>, w5)
                      | None \<Rightarrow>
                          let sess = next_ref w5;
                              w6 = w5\<lparr>next_ref := Suc sess,
                                     session_closed := (session_closed w5)(sess := False)\<rparr>;
                              (c3, w7) = handleOpen
                                (c2\<lparr>sessionPromise := Some (Fulfilled (Some sess))\<rparr>, w6)
                          in (None, c3\<lparr>isConnected := True\<rparr>, w7))))"

section \<open>\<^verbatim>\<open>LiveClient.setMute\<close> and \<^verbatim>\<open>handleClose\<close>\<close>

definition setMute :: "bool \<Rightarrow> LiveClient \<times> world \<Rightarrow> LiveClient \<times> world" where
  "setMute mute s =
     (case s of (c, w) \<Rightarrow>
        (case stream c of
           None \<Rightarrow> (c, w)
         | Some st \<Rightarrow> (c, fold (set_enabled (\<not> mute)) (getAudioTracks w st) w)))"

definition handleClose :: "LiveClient \<times> world \<Rightarrow> LiveClient \<times> world" where
  "handleClose s = (case s of (c, w) \<Rightarrow> (c\<lparr>isConnected := False\<rparr>, emit OnClose w))"

section \<open>\<^verbatim>\<open>LiveClient.disconnect\<close>\<close>

text \<open>
  The method has no \<^verbatim>\<open>throw\<close> that escapes: stopping a source, awaiting the session
  promise, closing the session and closing a context are each inside a \<^verbatim>\<open>try\<close>
  whose \<^verbatim>\<open>catch\<close> goes on, and the browser's \<^verbatim>\<open>AudioNode.disconnect()\<close> and
  \<^verbatim>\<open>MediaStreamTrack.stop()\<close> do not throw. Its result is therefore the new client
  and world, with no error component. \<open>disconnect\<close> is the method run from its first
  line to its last, as it does on a client whose session promise is absent or has
  settled.
\<close>

definition close_if_open :: "ref option \<Rightarrow> world \<Rightarrow> world" where
  "close_if_open ctx w =
     (case ctx of
        None \<Rightarrow> w
      | Some r \<Rightarrow> if ctx_state (contexts w r) \<noteq> Closed then close_context r w else w)"

text \<open>The blocks of the method, in the order of the source.\<close>

definition stop_playing_audio :: "LiveClient \<times> world \<Rightarrow> LiveClient \<times> world" where
  "stop_playing_audio s =
     (case s of (c, w) \<Rightarrow> (c\<lparr>audioQueue := []\<rparr>, fold stop_source (audioQueue c) w))"

definition release_sourceNode :: "LiveClient \<times> world \<Rightarrow> LiveClient \<times> world" where
  "release_sourceNode s =
     (case s of (c, w) \<Rightarrow>
        (case sourceNode c of
           None \<Rightarrow> (c, w)
         | Some n \<Rightarrow> (c\<lparr>sourceNode := None\<rparr>, disconnect_node n w)))"

definition release_scriptProcessor :: "LiveClient \<times> world \<Rightarrow> LiveClient \<times> world" where
  "release_scriptProcessor s =
     (case s of (c, w) \<Rightarrow>
        (case scriptProcessor c of
           None \<Rightarrow> (c, w)
         | Some n \<Rightarrow> (c\<lparr>scriptProcessor := None\<rparr>, disconnect_node n w)))"

definition release_stream :: "LiveClient \<times> world \<Rightarrow> LiveClient \<times> world" where
  "release_stream s =
     (case s of (c, w) \<Rightarrow>
        (case stream c of
           None \<Rightarrow> (c, w)
         | Some st \<Rightarrow> (c\<lparr>stream := None\<rparr>, fold stop_track (getTracks st) w)))"

text \<open>
  The block that awaits the session promise, for a promise that has settled (or none):
  awaiting a rejected promise throws inside the \<^verbatim>\<open>try\<close>; the \<^verbatim>\<open>catch\<close> is empty and
  the assignment of \<^verbatim>\<open>null\<close> after it runs in every case. A pending promise keeps
  the method at the \<^verbatim>\<open>await\<close>; that case is \<open>disconnect_call\<close> below.
\<close>

definition release_session :: "LiveClient \<times> world \<Rightarrow> LiveClient \<times> world" where
  "release_session s =
     (case s of (c, w) \<Rightarrow>
        (case sessionPromise c of
           None \<Rightarrow> (c, w)
         | Some p \<Rightarrow>
             (c\<lparr>sessionPromise := None\<rparr>,
              (case p of
                 Fulfilled (Some sess) \<Rightarrow> close_session sess w
               | Fulfilled None \<Rightarrow> w
               | Rejected e \<Rightarrow> w))))"

definition release_inputAudioContext :: "LiveClient \<times> world \<Rightarrow> LiveClient \<times> world" where
  "release_inputAudioContext s =
     (case s of (c, w) \<Rightarrow>
        (c\<lparr>inputAudioContext := None\<rparr>, close_if_open (inputAudioContext c) w))"

definition release_outputAudioContext :: "LiveClient \<times> world \<Rightarrow> LiveClient \<times> world" where
  "release_outputAudioContext s =
     (case s of (c, w) \<Rightarrow>
        (c\<lparr>outputAudioContext := None\<rparr>, close_if_open (outputAudioContext c) w))"

definition disconnect :: "LiveClient \<times> world \<Rightarrow> LiveClient \<times> world" where
  "disconnect s =
     (case release_outputAudioContext (release_inputAudioContext (release_session
             (release_stream (release_scriptProcessor (release_sourceNode
               (stop_playing_audio s)))))) of
        (c, w) \<Rightarrow> (c\<lparr>isConnected := False\<rparr>, w))"

section \<open>A session promise that has not settled\<close>




text \<open>
  \<^verbatim>\<open>connect()\<close> up to \<^verbatim>\<open>await this.sessionPromise\<close>: \<open>Inl\<close> when the call has
  returned or thrown before it, \<open>Inr\<close> the \<open>InFlight\<close> state in which it waits.
\<close>

definition connect_until_await ::
  "connect_env \<Rightarrow> LiveClient \<times> world \<Rightarrow> (error option \<times> LiveClient \<times> world) + (LiveClient \<times> world)" where
  "connect_until_await env s =
     (case s of (c, w) \<Rightarrow>
        if isConnected c then Inl (None, c, w)
        else if \<not> audio_supported env
        then Inl (Some (Error ''AudioContext not supported in this browser''), c, w)
        else
          let i = next_ref w;
              out = Suc i;
              w1 = w\<lparr>next_ref := Suc out,
                     contexts := (contexts w)
                       (i := new_context (device_rate env), out := new_context (device_rate env))\<rparr>;
              c1 = c\<lparr>inputAudioContext := Some i, outputAudioContext := Some out\<rparr>;
              w2 = resume out (resume i w1);
              w3 = w2\<lparr>mic_requests := Suc (mic_requests w2)\<rparr>
          in (case mic env of
                Inl e \<Rightarrow> Inl (Some e, c1, w3)
              | Inr ks \<Rightarrow>
                  let (st, w4) = grant_stream ks w3;
                      c2 = c1\<lparr>stream := Some st\<rparr>;
                      w5 = w4\<lparr>sessions_opened := Suc (sessions_opened w4)\<rparr>
                  in Inr (c2\<lparr>sessionPromise := None\<rparr>, w5)))"

text \<open>
  The endpoint answers (\<open>None\<close>: the session opens; \<open>Some e\<close>: it is rejected). The SDK
  calls \<^verbatim>\<open>onopen\<close> when the session opens, the promise settles, and \<^verbatim>\<open>connect()\<close>
  goes on after its \<^verbatim>\<open>await\<close>.
\<close>

definition connect_settled ::
  "error option \<Rightarrow> LiveClient \<times> world \<Rightarrow> error option \<times> LiveClient \<times> world" where
  "connect_settled answer s =
     (case s of (c, w) \<Rightarrow>
        (case answer of
           Some e \<Rightarrow> (Some e, c\<lparr>sessionPromise := Some (Rejected e)\<rparr>, w)
         | None \<Rightarrow>
             let sess = next_ref w;
                 w1 = w\<lparr>next_ref := Suc sess,
                        session_closed := (session_closed w)(sess := False)\<rparr>;
                 (c2, w2) = handleOpen (c\<lparr>sessionPromise := Some (Fulfilled (Some sess))\<rparr>, w1)
             in (None, c2\<lparr>isConnected := True\<rparr>, w2)))"

text \<open>
  \<^verbatim>\<open>disconnect()\<close> in two parts: the blocks before \<^verbatim>\<open>await this.sessionPromise\<close>,
  and the blocks from that \<^verbatim>\<open>await\<close> on, which run once the promise has settled.
\<close>

definition disconnect_until_await :: "LiveClient \<times> world \<Rightarrow> LiveClient \<times> world" where
  "disconnect_until_await s =
     release_stream (release_scriptProcessor (release_sourceNode (stop_playing_audio s)))"

definition disconnect_after_await :: "LiveClient \<times> world \<Rightarrow> LiveClient \<times> world" where
  "disconnect_after_await s =
     (case release_outputAudioContext (release_inputAudioContext (release_session s)) of
        (c, w) \<Rightarrow> (c\<lparr>isConnected := False\<rparr>, w))"




section \<open>\<^verbatim>\<open>LiveClient.handleMessage\<close>\<close>

text \<open>
  A message of the remote endpoint, with the fields the handler reads. A
  transcription is represented by its text, a part by the data of its
  \<^verbatim>\<open>inlineData\<close> (\<open>None\<close> when either is absent).
\<close>

record Part =
  inlineData :: "string option"

record Content =
  parts :: "Part list option"

record ServerContent =
  inputTranscription :: "string option"
  outputTranscription :: "string option"
  modelTurn :: "Content option"
  interrupted :: bool

record LiveServerMessage =
  serverContent :: "ServerContent option"

text \<open>
  \<^verbatim>\<open>base64ToUint8Array\<close> and \<^verbatim>\<open>decodeAudioData\<close> belong to
  \<^verbatim>\<open>utils/audioUtils\<close>: they are parameters of the handler. Either may throw (or
  reject). \<^verbatim>\<open>decodeAudioData\<close> is a function of the bytes: its other arguments are
  the same at its only call (the output context, the rate 24000 and one channel).
\<close>

record audio_utils =
  base64ToUint8Array :: "string \<Rightarrow> error + 8 word list"
  decodeAudioData :: "8 word list \<Rightarrow> error + AudioBuffer"

definition handleTranscript :: "LiveServerMessage \<Rightarrow> world \<Rightarrow> world" where
  "handleTranscript m w =
     (case serverContent m of
        None \<Rightarrow> w
      | Some sc \<Rightarrow>
          let w1 = (case inputTranscription sc of
                      None \<Rightarrow> w
                    | Some t \<Rightarrow> emit (OnTranscript t True) w)
          in (case outputTranscription sc of
                None \<Rightarrow> w1
              | Some t \<Rightarrow> emit (OnTranscript t False) w1))"

text \<open>
  \<^verbatim>\<open>message.serverContent?.modelTurn?.parts[0]?.inlineData?.data\<close>: the optional
  chaining guards \<^verbatim>\<open>serverContent\<close>, \<^verbatim>\<open>modelTurn\<close>, the first part and its
  \<^verbatim>\<open>inlineData\<close>, but not \<^verbatim>\<open>parts\<close>: indexing an absent \<^verbatim>\<open>parts\<close> throws.
\<close>

definition base64Audio :: "LiveServerMessage \<Rightarrow> error + string option" where
  "base64Audio m =
     (case serverContent m of
        None \<Rightarrow> Inr None
      | Some sc \<Rightarrow>
          (case modelTurn sc of
             None \<Rightarrow> Inr None
           | Some ct \<Rightarrow>
               (case parts ct of
                  None \<Rightarrow> Inl (Error ''TypeError'')
                | Some [] \<Rightarrow> Inr None
                | Some (p # ps) \<Rightarrow> Inr (inlineData p))))"

definition is_interrupted :: "LiveServerMessage \<Rightarrow> bool" where
  "is_interrupted m = (case serverContent m of None \<Rightarrow> False | Some sc \<Rightarrow> interrupted sc)"

text \<open>The \<^verbatim>\<open>Int16Array\<close> over the bytes, little-endian as on every browser platform.\<close>

fun int16s :: "8 word list \<Rightarrow> int list" where
  "int16s (lo # hi # bs) = sint (word_cat hi lo :: 16 word) # int16s bs"
| "int16s bs = []"

text \<open>
  The level of the synthesized voice: every tenth sample, scaled to \<open>[-1, 1]\<close>. On an
  empty array the quotient is \<^verbatim>\<open>0 / 0\<close>.
\<close>

definition model_level :: "8 word list \<Rightarrow> js_number" where
  "model_level bytes =
     (let int16 = int16s bytes;
          vals = map (\<lambda>i. real_of_int (int16 ! i) / 32768)
                     (filter (\<lambda>i. i mod 10 = 0) [0 ..< length int16]);
          sum = fold (\<lambda>v s. s + v * v) vals 0
      in if int16 = [] then NaN
         else Num (min 1 (sqrt (sum / (real (length int16) / 10)) * 5)))"

text \<open>
  Drift correction, tracking in the queue, \<^verbatim>\<open>source.start\<close> and the advance of
  the cursor. The world keeps, in \<open>started\<close>, the calls of \<^verbatim>\<open>start\<close> in order: the
  start time passed and the duration of the buffer started.
\<close>

definition schedule :: "ref \<Rightarrow> AudioBuffer \<Rightarrow> LiveClient \<times> world \<Rightarrow> LiveClient \<times> world" where
  "schedule out buf s =
     (case s of (c, w) \<Rightarrow>
        let now = currentTime (contexts w out);
            c1 = (if nextStartTime c < now then c\<lparr>nextStartTime := now\<rparr> else c);
            src = next_ref w;
            w1 = w\<lparr>next_ref := Suc src,
                   sources := (sources w)
                     (src := \<lparr>src_buffer = buf, startedAt = None, stopped = False\<rparr>)\<rparr>;
            c2 = c1\<lparr>audioQueue := audioQueue c1 @ [src]\<rparr>;
            w2 = w1\<lparr>sources := (sources w1)
                       (src := (sources w1 src)\<lparr>startedAt := Some (nextStartTime c2)\<rparr>),
                    started := started w1 @ [(nextStartTime c2, buf_duration buf)]\<rparr>;
            c3 = c2\<lparr>nextStartTime := nextStartTime c2 + buf_duration buf\<rparr>
        in (c3, w2))"

definition handleAudio ::
  "audio_utils \<Rightarrow> ref \<Rightarrow> string \<Rightarrow> LiveClient \<times> world \<Rightarrow> error option \<times> LiveClient \<times> world" where
  "handleAudio U out data s =
     (case s of (c, w) \<Rightarrow>
        (case base64ToUint8Array U data of
           Inl e \<Rightarrow> (Some e, c, w)
         | Inr bytes \<Rightarrow>
             if odd (length bytes) then (Some (Error ''RangeError''), c, w)
             else
               let w1 = emit (OnAudioData (model_level bytes)) w
               in (case decodeAudioData U bytes of
                     Inl e \<Rightarrow> (Some e, c, w1)
                   | Inr buf \<Rightarrow> (None, schedule out buf (c, w1)))))"

definition handleInterruption :: "ref \<Rightarrow> LiveClient \<times> world \<Rightarrow> LiveClient \<times> world" where
  "handleInterruption out s =
     (case s of (c, w) \<Rightarrow>
        let w1 = fold stop_source (audioQueue c) w
        in (c\<lparr>audioQueue := [], nextStartTime := currentTime (contexts w1 out)\<rparr>, w1))"

text \<open>
  The whole body is inside a \<^verbatim>\<open>try\<close>: an exception ends the handling of the message,
  the interruption block included, and is logged.
\<close>

definition handleMessage ::
  "audio_utils \<Rightarrow> LiveServerMessage \<Rightarrow> LiveClient \<times> world \<Rightarrow> LiveClient \<times> world" where
  "handleMessage U m s =
     (case s of (c, w) \<Rightarrow>
        (case outputAudioContext c of
           None \<Rightarrow> (c, w)
         | Some out \<Rightarrow>
             let w1 = handleTranscript m w
             in (case base64Audio m of
                   Inl e \<Rightarrow> (c, w1)
                 | Inr data \<Rightarrow>
                     (case (if data \<noteq> None \<and> data \<noteq> Some []
                            then handleAudio U out (the data) (c, w1)
                            else (None, c, w1)) of
                        (Some e, c2, w2) \<Rightarrow> (c2, w2)
                      | (None, c2, w2) \<Rightarrow>
                          if is_interrupted m then handleInterruption out (c2, w2)
                          else (c2, w2)))))"

text \<open>The \<^verbatim>\<open>onended\<close> handler given to each source: \<^verbatim>\<open>indexOf\<close>, then \<^verbatim>\<open>splice\<close>.\<close>

definition onended :: "ref \<Rightarrow> LiveClient \<times> world \<Rightarrow> LiveClient \<times> world" where
  "onended src s = (case s of (c, w) \<Rightarrow> (c\<lparr>audioQueue := remove1 src (audioQueue c)\<rparr>, w))"

text \<open>The output device's clock moves on between two handlers.\<close>

definition advance_clock :: "real \<Rightarrow> LiveClient \<times> world \<Rightarrow> LiveClient \<times> world" where
  "advance_clock dt s =
     (case s of (c, w) \<Rightarrow>
        (case outputAudioContext c of
           None \<Rightarrow> (c, w)
         | Some out \<Rightarrow>
             (c, w\<lparr>contexts := (contexts w)
                     (out := (contexts w out)\<lparr>currentTime := currentTime (contexts w out) + dt\<rparr>)\<rparr>)))"

datatype event = Message LiveServerMessage | Tick real | SourceEnded ref

fun step :: "audio_utils \<Rightarrow> event \<Rightarrow> LiveClient \<times> world \<Rightarrow> LiveClient \<times> world" where
  "step U (Message m) s = handleMessage U m s"
| "step U (Tick dt) s = advance_clock dt s"
| "step U (SourceEnded src) s = onended src s"

fun run :: "audio_utils \<Rightarrow> event list \<Rightarrow> LiveClient \<times> world \<Rightarrow> LiveClient \<times> world" where
  "run U [] s = s"
| "run U (e # es) s = run U es (step U e s)"

section \<open>The capture callback \<^verbatim>\<open>onaudioprocess\<close>\<close>

text \<open>The loop adds the squares from the first sample on; an empty block gives \<^verbatim>\<open>0 / 0\<close>.\<close>

definition frame_rms :: "real list \<Rightarrow> js_number" where
  "frame_rms inputData =
     (if inputData = [] then NaN
      else Num (sqrt (fold (\<lambda>x sum. sum + x * x) inputData 0 / real (length inputData))))"

definition onaudioprocess :: "real list \<Rightarrow> LiveClient \<times> world \<Rightarrow> LiveClient \<times> world" where
  "onaudioprocess inputData s =
     (case s of (c, w) \<Rightarrow>
        (case inputAudioContext c of
           None \<Rightarrow> (c, w)
         | Some i \<Rightarrow>
             let w1 = (case frame_rms inputData of
                         NaN \<Rightarrow> w
                       | Num rms \<Rightarrow>
                           if rms > 0.01 then emit (OnAudioData (Num (min 1 (rms * 5)))) w
                           else w);
                 pcmBlob = PcmBlob inputData (sampleRate (contexts w i))
             in (c, (case sessionPromise c of
                       Some (Fulfilled (Some sess)) \<Rightarrow> w1\<lparr>sent := sent w1 @ [(sess, pcmBlob)]\<rparr>
                     | _ \<Rightarrow> w1))))"

section \<open>\<^verbatim>\<open>gradeCall\<close> (the grading service)\<close>

record Persona =
  persona_id :: string
  persona_name :: string
  description :: string
  systemInstruction :: string

datatype Language = En | Ja

record RubricItem =
  category :: string
  item_score :: int
  feedback :: string

record Grading =
  score :: int
  rubric :: "RubricItem list"
  summary :: string

text \<open>
  The prompt is a fixed template with four interpolated values: the persona's name,
  the transcript, the persona's description and the name of the output language.
\<close>

datatype prompt = GradingPrompt string string string string

definition gradingPrompt :: "string \<Rightarrow> Persona \<Rightarrow> Language \<Rightarrow> prompt" where
  "gradingPrompt transcript persona lang =
     GradingPrompt (persona_name persona) transcript (description persona)
       (if lang = Ja then ''Japanese'' else ''English'')"

text \<open>
  The object \<^verbatim>\<open>JSON.parse\<close> returns, with the three properties the function reads;
  a property that is absent reads as \<^verbatim>\<open>undefined\<close>. The response schema sent with
  the request types them as an integer, an array of rubric items and a string.
\<close>

record grading_json =
  json_score :: "int option"
  json_rubric :: "RubricItem list option"
  json_summary :: "string option"

text \<open>
  What the environment answers during one grading: the API key of the deployment, the
  outcome of \<^verbatim>\<open>generateContent\<close> (a rejection, or the \<^verbatim>\<open>text\<close> of the response, which
  may be absent) and \<^verbatim>\<open>JSON.parse\<close> (a \<^verbatim>\<open>SyntaxError\<close>, the value \<^verbatim>\<open>null\<close> as
  \<open>None\<close>, or an object).
\<close>

record grade_env =
  GEMINI_API_KEY :: "string option"
  generateContent :: "prompt \<Rightarrow> error + string option"
  JSON_parse :: "string \<Rightarrow> error + grading_json option"

text \<open>The body of the \<^verbatim>\<open>try\<close>: \<open>Inl\<close> is an exception thrown in it.\<close>

definition gradeCall_try :: "grade_env \<Rightarrow> string \<Rightarrow> Persona \<Rightarrow> Language \<Rightarrow> error + Grading" where
  "gradeCall_try env transcript persona lang =
     (if GEMINI_API_KEY env = None \<or> GEMINI_API_KEY env = Some []
      then Inl (Error ''Missing API Key'')
      else
        (case generateContent env (gradingPrompt transcript persona lang) of
           Inl e \<Rightarrow> Inl e
         | Inr text \<Rightarrow>
             (case JSON_parse env (if text = None \<or> text = Some [] then ''{}'' else the text) of
                Inl e \<Rightarrow> Inl e
              | Inr None \<Rightarrow> Inl (Error ''TypeError'')
              | Inr (Some result) \<Rightarrow>
                  Inr \<lparr>score = (case json_score result of None \<Rightarrow> 0 | Some n \<Rightarrow> n),
                       rubric = (case json_rubric result of None \<Rightarrow> [] | Some r \<Rightarrow> r),
                       summary = (case json_summary result of
                                    None \<Rightarrow> ''No summary available.''
                                  | Some t \<Rightarrow> if t = [] then ''No summary available.'' else t)\<rparr>)))"

definition grading_fallback :: Grading where
  "grading_fallback =
     \<lparr>score = 50,
      rubric = [\<lparr>category = ''System Error'', item_score = 0,
                 feedback = ''Could not analyze transcript.''\<rparr>],
      summary = ''Error grading call. Please try again.''\<rparr>"

text \<open>
  The result is how the promise of the \<^verbatim>\<open>async\<close> function settles: \<open>Inr\<close> when it
  resolves, \<open>Inl\<close> when it rejects.
\<close>

definition gradeCall :: "grade_env \<Rightarrow> string \<Rightarrow> Persona \<Rightarrow> Language \<Rightarrow> error + Grading" where
  "gradeCall env transcript persona lang =
     (case gradeCall_try env transcript persona lang of
        Inr g \<Rightarrow> Inr g
      | Inl e \<Rightarrow> Inr grading_fallback)"

section \<open>\<^verbatim>\<open>App.handleEndCall\<close>\<close>

datatype AppState = DASHBOARD | IN_CALL | FEEDBACK | LEADERBOARD

record CallSession =
  session_id :: string
  timestamp :: nat
  session_playerName :: string
  personaId :: string
  durationSeconds :: nat
  session_transcript :: string
  overallScore :: int
  session_rubric :: "RubricItem list"
  session_summary :: string

text \<open>
  The state of the \<^verbatim>\<open>App\<close> component that the handler reads or writes, and the
  entry \<^verbatim>\<open>coldcall_sessions\<close> of the local storage (\<open>stored_sessions\<close>).
\<close>

record App =
  appState :: AppState
  language :: Language
  selectedPersona :: "Persona option"
  currentSession :: "CallSession option"
  sessions :: "CallSession list"
  playerName :: string
  isProcessing :: bool
  stored_sessions :: "CallSession list option"

definition digit_char :: "nat \<Rightarrow> char" where
  "digit_char d = ''0123456789'' ! d"

fun toString :: "nat \<Rightarrow> string" where
  "toString n =
     (if n < 10 then [digit_char n] else toString (n div 10) @ [digit_char (n mod 10)])"

declare toString.simps [simp del]

text \<open>
  \<open>now_id\<close> and \<open>now_ts\<close> are the two readings of \<^verbatim>\<open>Date.now()\<close>. The handler awaits
  \<^verbatim>\<open>gradeCall\<close> outside any \<^verbatim>\<open>try\<close>: were the grading to reject, the handler would
  stop there, after \<^verbatim>\<open>setIsProcessing(true)\<close>.
\<close>

definition handleEndCall :: "grade_env \<Rightarrow> nat \<Rightarrow> nat \<Rightarrow> string \<Rightarrow> App \<Rightarrow> App" where
  "handleEndCall env now_id now_ts transcript app =
     (case selectedPersona app of
        None \<Rightarrow> app
      | Some persona \<Rightarrow>
          let app1 = app\<lparr>isProcessing := True\<rparr>
          in (case gradeCall env transcript persona (language app1) of
                Inl e \<Rightarrow> app1
              | Inr grading \<Rightarrow>
                  let newSession =
                        \<lparr>session_id = toString now_id, timestamp = now_ts,
                         session_playerName = playerName app1,
                         personaId = persona_id persona,
                         durationSeconds = 0,
                         session_transcript = transcript,
                         overallScore = score grading,
                         session_rubric = rubric grading,
                         session_summary = summary grading\<rparr>;
                      newSessions = newSession # sessions app1
                  in app1\<lparr>sessions := newSessions, stored_sessions := Some newSessions,
                          currentSession := Some newSession, isProcessing := False,
                          appState := FEEDBACK\<rparr>))"

section \<open>The \<^verbatim>\<open>ActiveCall\<close> component\<close>

datatype call_status = Connecting | Connected | Failed

text \<open>
  The state, the refs and the variables of the effect that the modelled functions
  use. \<open>client\<close> is the \<^verbatim>\<open>LiveClient\<close> object the effect created, if any;
  \<open>liveClientRef\<close> tells whether \<^verbatim>\<open>liveClientRef.current\<close> refers to it. The last
  four fields are the browser's and the parent's: the clock in milliseconds, the due
  times of the pending \<^verbatim>\<open>setTimeout\<close> calls (each runs \<^verbatim>\<open>handleHangUp\<close>), whether the
  interval of the duration counter is running, and the transcripts \<^verbatim>\<open>onEndCall\<close> has
  been called with.
\<close>

record ActiveCall =
  status :: call_status
  duration :: nat
  transcript :: string
  errorMessage :: string
  client :: "LiveClient option"
  liveClientRef :: bool
  timerRef :: "nat option"
  transcriptRef :: string
  isMountedRef :: bool
  ignore :: bool
  clock :: nat
  timeouts :: "nat list"
  interval_running :: bool
  onEndCall_calls :: "string list"

text \<open>The component as it is mounted, before \<^verbatim>\<open>startCall\<close> runs.\<close>

definition mounted_ActiveCall :: ActiveCall where
  "mounted_ActiveCall =
     \<lparr>status = Connecting, duration = 0, transcript = [], errorMessage = [],
      client = None, liveClientRef = False, timerRef = None, transcriptRef = [],
      isMountedRef = True, ignore = False, clock = 0, timeouts = [],
      interval_running = False, onEndCall_calls = []\<rparr>"

text \<open>\<^verbatim>\<open>text.includes(marker)\<close>.\<close>

fun str_includes :: "string \<Rightarrow> string \<Rightarrow> bool" where
  "str_includes [] m \<longleftrightarrow> m = []"
| "str_includes (c # cs) m \<longleftrightarrow> prefix m (c # cs) \<or> str_includes cs m"

definition END_CALL :: string where
  "END_CALL = ''[[END_CALL]]''"

definition END_CALL_DELAY :: nat where
  "END_CALL_DELAY = 3000"

definition onTranscript :: "Persona \<Rightarrow> string \<Rightarrow> bool \<Rightarrow> ActiveCall \<Rightarrow> ActiveCall" where
  "onTranscript persona text isUser a =
     (if isMountedRef a
      then
        let line = (if isUser then ''You'' else persona_name persona) @ '': '' @ text @ [CHR 0x0A];
            a1 = a\<lparr>transcriptRef := transcriptRef a @ line, transcript := transcript a @ line\<rparr>
        in if \<not> isUser \<and> str_includes text END_CALL
           then a1\<lparr>timeouts := timeouts a1 @ [clock a1 + END_CALL_DELAY]\<rparr>
           else a1
      else a)"

text \<open>The callback of \<^verbatim>\<open>setInterval\<close>, run by the browser every second.\<close>

definition tick :: "ActiveCall \<Rightarrow> ActiveCall" where
  "tick a =
     (if interval_running a \<and> isMountedRef a then a\<lparr>duration := duration a + 1\<rparr> else a)"

definition handleHangUp :: "ActiveCall \<times> world \<Rightarrow> ActiveCall \<times> world" where
  "handleHangUp s =
     (case s of (a, w) \<Rightarrow>
        let (a1, w1) =
              (if liveClientRef a
               then (case client a of
                       None \<Rightarrow> (a, w)
                     | Some c \<Rightarrow> (case disconnect (c, w) of (c', w') \<Rightarrow> (a\<lparr>client := Some c'\<rparr>, w')))
               else (a, w));
            a2 = (if timerRef a1 \<noteq> None \<and> timerRef a1 \<noteq> Some 0
                  then a1\<lparr>interval_running := False\<rparr> else a1)
        in (a2\<lparr>onEndCall_calls := onEndCall_calls a2 @ [transcriptRef a2]\<rparr>, w1))"

text \<open>
  The browser's clock moves on by \<open>dt\<close> milliseconds and the timeouts that are due run,
  in the order they were set.
\<close>

definition elapse :: "nat \<Rightarrow> ActiveCall \<times> world \<Rightarrow> ActiveCall \<times> world" where
  "elapse dt s =
     (case s of (a, w) \<Rightarrow>
        let t = clock a + dt;
            due = filter (\<lambda>d. d \<le> t) (timeouts a);
            a1 = a\<lparr>clock := t, timeouts := filter (\<lambda>d. \<not> d \<le> t) (timeouts a)\<rparr>
        in fold (\<lambda>d. handleHangUp) due (a1, w))"

text \<open>
  The \<^verbatim>\<open>catch\<close> of \<^verbatim>\<open>startCall\<close>: \<^verbatim>\<open>err.message || "Connection failed"\<close>.
\<close>

definition startCall_catch :: "error \<Rightarrow> ActiveCall \<Rightarrow> ActiveCall" where
  "startCall_catch err a =
     (if isMountedRef a \<and> \<not> ignore a
      then a\<lparr>status := Failed,
             errorMessage := (case err of Error msg \<Rightarrow>
                                if msg = [] then ''Connection failed'' else msg)\<rparr>
      else a)"

record start_env =
  api_key :: "string option"
  answers :: connect_env
  interval_id :: nat

definition startCall :: "start_env \<Rightarrow> ActiveCall \<times> world \<Rightarrow> ActiveCall \<times> world" where
  "startCall env s =
     (case s of (a, w) \<Rightarrow>
        if api_key env = None \<or> api_key env = Some []
        then (startCall_catch
                (Error ''API Key not found. Please check your deployment settings. Ensure you have set 'GEMINI_API_KEY' in your environment variables.'')
                a, w)
        else
          let a1 = a\<lparr>client := Some new_LiveClient, liveClientRef := True\<rparr>
          in (case connect (answers env) (new_LiveClient, w) of
                (Some e, c1, w1) \<Rightarrow> (startCall_catch e (a1\<lparr>client := Some c1\<rparr>), w1)
              | (None, c1, w1) \<Rightarrow>
                  if ignore a1
                  then (case disconnect (c1, w1) of (c2, w2) \<Rightarrow> (a1\<lparr>client := Some c2\<rparr>, w2))
                  else if isMountedRef a1
                  then (a1\<lparr>client := Some c1, status := Connected,
                            timerRef := Some (interval_id env), interval_running := True\<rparr>, w1)
                  else (a1\<lparr>client := Some c1\<rparr>, w1)))"

text \<open>The function the effect returns, run when the component is unmounted.\<close>

definition cleanup :: "ActiveCall \<times> world \<Rightarrow> ActiveCall \<times> world" where
  "cleanup s =
     (case s of (a, w) \<Rightarrow>
        let a1 = a\<lparr>ignore := True, isMountedRef := False\<rparr>;
            a2 = (if timerRef a1 \<noteq> None \<and> timerRef a1 \<noteq> Some 0
                  then a1\<lparr>interval_running := False, timerRef := None\<rparr> else a1);
            (a3, w3) =
              (case client a2 of
                 None \<Rightarrow> (a2, w)
               | Some c \<Rightarrow> (case disconnect (c, w) of (c', w') \<Rightarrow> (a2\<lparr>client := Some c'\<rparr>, w')))
        in (a3\<lparr>liveClientRef := False\<rparr>, w3))"

section \<open>Notions used to state the properties\<close>

subsection \<open>Released clients and owned tracks\<close>

definition released :: "LiveClient \<Rightarrow> bool" where
  "released c \<longleftrightarrow>
     audioQueue c = [] \<and> sourceNode c = None \<and> scriptProcessor c = None \<and> stream c = None \<and>
     sessionPromise c = None \<and> inputAudioContext c = None \<and> outputAudioContext c = None \<and>
     \<not> isConnected c"

definition stream_tracks :: "LiveClient \<Rightarrow> ref set" where
  "stream_tracks c = (case stream c of None \<Rightarrow> {} | Some st \<Rightarrow> set (getTracks st))"

definition mic_tracks :: "LiveClient \<Rightarrow> world \<Rightarrow> ref set" where
  "mic_tracks c w = (case stream c of None \<Rightarrow> {} | Some st \<Rightarrow> set (getAudioTracks w st))"

subsection \<open>Playback schedules\<close>

text \<open>
  \<open>chained t log t'\<close>: starting with the cursor at \<open>t\<close>, each entry of the log starts
  at or after the cursor, lasts a non-negative time and leaves the cursor at its own
  end; the cursor ends at \<open>t'\<close>.
\<close>

fun chained :: "real \<Rightarrow> (real \<times> real) list \<Rightarrow> real \<Rightarrow> bool" where
  "chained t [] t' \<longleftrightarrow> t' = t"
| "chained t ((s, d) # es) t' \<longleftrightarrow> t \<le> s \<and> 0 \<le> d \<and> chained (s + d) es t'"

text \<open>The earlier playback interval ends before the later one starts.\<close>

definition no_overlap :: "real \<times> real \<Rightarrow> real \<times> real \<Rightarrow> bool" where
  "no_overlap a b \<longleftrightarrow> fst a + snd a \<le> fst b"

definition no_interruption :: "event list \<Rightarrow> bool" where
  "no_interruption evs \<longleftrightarrow>
     (\<forall>e \<in> set evs. case e of Message m \<Rightarrow> \<not> is_interrupted m | _ \<Rightarrow> True)"

definition transcript_calls :: "LiveServerMessage \<Rightarrow> callback list" where
  "transcript_calls m =
     (case serverContent m of
        None \<Rightarrow> []
      | Some sc \<Rightarrow>
          (case inputTranscription sc of None \<Rightarrow> [] | Some t \<Rightarrow> [OnTranscript t True]) @
          (case outputTranscription sc of None \<Rightarrow> [] | Some t \<Rightarrow> [OnTranscript t False]))"

text \<open>The buffer a message's audio decodes to, when it carries audio and nothing throws.\<close>

definition audio_buffer :: "audio_utils \<Rightarrow> LiveServerMessage \<Rightarrow> AudioBuffer option" where
  "audio_buffer U m =
     (case base64Audio m of
        Inr (Some data) \<Rightarrow>
          if data = [] then None
          else (case base64ToUint8Array U data of
                  Inr bytes \<Rightarrow>
                    if odd (length bytes) then None
                    else (case decodeAudioData U bytes of
                            Inr buf \<Rightarrow> Some buf
                          | Inl e \<Rightarrow> None)
                | Inl e \<Rightarrow> None)
      | _ \<Rightarrow> None)"

text \<open>Whether the audio block of the handler throws on the message.\<close>

definition throws :: "audio_utils \<Rightarrow> LiveServerMessage \<Rightarrow> bool" where
  "throws U m =
     (case base64Audio m of
        Inl e \<Rightarrow> True
      | Inr None \<Rightarrow> False
      | Inr (Some data) \<Rightarrow>
          if data = [] then False
          else (case base64ToUint8Array U data of
                  Inl e \<Rightarrow> True
                | Inr bytes \<Rightarrow>
                    odd (length bytes) \<or>
                    (case decodeAudioData U bytes of Inl e \<Rightarrow> True | Inr buf \<Rightarrow> False)))"

text \<open>A client without an output context has nothing in its playback queue.\<close>

definition queue_inv :: "LiveClient \<Rightarrow> bool" where
  "queue_inv c \<longleftrightarrow> (outputAudioContext c = None \<longrightarrow> audioQueue c = [])"

subsection \<open>Failure of the grading\<close>

text \<open>
  The three causes: no API key, a request that fails, a response that does not parse
  to an object.
\<close>

definition grading_fails :: "grade_env \<Rightarrow> string \<Rightarrow> Persona \<Rightarrow> Language \<Rightarrow> bool" where
  "grading_fails env t persona lang \<longleftrightarrow>
     GEMINI_API_KEY env = None \<or> GEMINI_API_KEY env = Some [] \<or>
     (case generateContent env (gradingPrompt t persona lang) of
        Inl e \<Rightarrow> True
      | Inr text \<Rightarrow>
          (case JSON_parse env (if text = None \<or> text = Some [] then ''{}'' else the text) of
             Inl e \<Rightarrow> True
           | Inr None \<Rightarrow> True
           | Inr (Some result) \<Rightarrow> False))"

subsection \<open>A sample session\<close>

text \<open>
  Concrete values on which the properties are exercised: an empty world, environments
  that grant or refuse the microphone and the session, a stand-in for the two audio
  utilities, and the states of a call that connects and plays one chunk.
\<close>

definition initial_world :: world where
  "initial_world =
     \<lparr>next_ref = 10, contexts = (\<lambda>r. new_context 0), tracks = (\<lambda>r. new_track AudioKind),
      node_connected = (\<lambda>r. False),
      sources = (\<lambda>r. \<lparr>src_buffer = \<lparr>buf_length = 0, buf_sampleRate = 0\<rparr>,
                        startedAt = None, stopped = False\<rparr>),
      session_closed = (\<lambda>r. False), mic_requests = 0, sessions_opened = 0,
      emitted = [], sent = [], started = []\<rparr>"

definition granting_env :: connect_env where
  "granting_env =
     \<lparr>audio_supported = True, device_rate = 48000, mic = Inr [AudioKind], remote = None\<rparr>"

definition denying_env :: connect_env where
  "denying_env =
     \<lparr>audio_supported = True, device_rate = 48000, mic = Inl (Error ''Permission denied''),
      remote = None\<rparr>"

definition rejecting_env :: connect_env where
  "rejecting_env =
     \<lparr>audio_supported = True, device_rate = 48000, mic = Inr [AudioKind],
      remote = Some (Error ''403'')\<rparr>"

definition sample_utils :: audio_utils where
  "sample_utils =
     \<lparr>base64ToUint8Array = (\<lambda>data. Inr (replicate (2 * length data) 0)),
      decodeAudioData =
        (\<lambda>bytes. Inr \<lparr>buf_length = length bytes div 2, buf_sampleRate = 24000\<rparr>)\<rparr>"

definition audio_message :: LiveServerMessage where
  "audio_message =
     \<lparr>serverContent = Some
        \<lparr>inputTranscription = None, outputTranscription = None,
         modelTurn = Some \<lparr>parts = Some [\<lparr>inlineData = Some ''AAAAAAAAAAAA''\<rparr>]\<rparr>,
         interrupted = False\<rparr>\<rparr>"


definition connected_state :: "LiveClient \<times> world" where
  "connected_state = snd (connect granting_env (new_LiveClient, initial_world))"

definition playing_state :: "LiveClient \<times> world" where
  "playing_state = handleMessage sample_utils audio_message connected_state"





definition sample_persona :: Persona where
  "sample_persona =
     \<lparr>persona_id = ''p1'', persona_name = ''Mr. Johnson (Location)'',
      description = ''Complains about hotel location'',
      systemInstruction = ''You are Mr. Johnson''\<rparr>"

definition sample_app :: App where
  "sample_app =
     \<lparr>appState = IN_CALL, language = En, selectedPersona = Some sample_persona,
      currentSession = None, sessions = [], playerName = ''Ann'', isProcessing = False,
      stored_sessions = None\<rparr>"

definition keyless_env :: grade_env where
  "keyless_env =
     \<lparr>GEMINI_API_KEY = None, generateContent = (\<lambda>p. Inr None),
      JSON_parse = (\<lambda>t. Inr (Some \<lparr>json_score = None, json_rubric = None, json_summary = None\<rparr>))\<rparr>"

definition sample_start_env :: start_env where
  "sample_start_env = \<lparr>api_key = Some ''key'', answers = granting_env, interval_id = 1\<rparr>"

text \<open>
  A call that connects, hears the user say hello and lasts five seconds; and the same
  component after it has been unmounted.
\<close>

definition connected_call :: "ActiveCall \<times> world" where
  "connected_call = startCall sample_start_env (mounted_ActiveCall, initial_world)"

definition five_second_call :: "ActiveCall \<times> world" where
  "five_second_call =
     ((tick ^^ 5) (onTranscript sample_persona ''Hello'' True (fst connected_call)),
      snd connected_call)"

definition unmounted_call :: "ActiveCall \<times> world" where
  "unmounted_call = cleanup connected_call"

definition answering_env :: grade_env where
  "answering_env =
     \<lparr>GEMINI_API_KEY = Some ''key'', generateContent = (\<lambda>p. Inr (Some ''json'')),
      JSON_parse = (\<lambda>t. Inr (Some \<lparr>json_score = Some 80, json_rubric = None,
                                     json_summary = Some ''Good''\<rparr>))\<rparr>"

definition keyless_start_env :: start_env where
  "keyless_start_env = \<lparr>api_key = None, answers = granting_env, interval_id = 1\<rparr>"

definition denied_start_env :: start_env where
  "denied_start_env = \<lparr>api_key = Some ''key'', answers = denying_env, interval_id = 1\<rparr>"

definition rejected_start_env :: start_env where
  "rejected_start_env = \<lparr>api_key = Some ''key'', answers = rejecting_env, interval_id = 1\<rparr>"

section \<open>Properties\<close>

subsection \<open>Loops over the store\<close>

lemma fold_stop_source:
  "fold stop_source xs w =
     w\<lparr>sources := (\<lambda>r. if r \<in> set xs then (sources w r)\<lparr>stopped := True\<rparr> else sources w r)\<rparr>"
proof (induction xs arbitrary: w)
  case Nil
  show ?case by simp
next
  case (Cons x xs)
  have "fold stop_source (x # xs) w = fold stop_source xs (stop_source x w)"
    by simp
  also have "\<dots> = (stop_source x w)
      \<lparr>sources := (\<lambda>r. if r \<in> set xs then (sources (stop_source x w) r)\<lparr>stopped := True\<rparr>
                       else sources (stop_source x w) r)\<rparr>"
    by (rule Cons.IH)
  also have "\<dots> = w\<lparr>sources := (\<lambda>r. if r \<in> set (x # xs) then (sources w r)\<lparr>stopped := True\<rparr>
                                    else sources w r)\<rparr>"
    by (simp add: stop_source_def fun_eq_iff)
  finally show ?case .
qed

lemma fold_stop_track:
  "fold stop_track xs w =
     w\<lparr>tracks := (\<lambda>r. if r \<in> set xs then (tracks w r)\<lparr>ended := True\<rparr> else tracks w r)\<rparr>"
proof (induction xs arbitrary: w)
  case Nil
  show ?case by simp
next
  case (Cons x xs)
  have "fold stop_track (x # xs) w = fold stop_track xs (stop_track x w)"
    by simp
  also have "\<dots> = (stop_track x w)
      \<lparr>tracks := (\<lambda>r. if r \<in> set xs then (tracks (stop_track x w) r)\<lparr>ended := True\<rparr>
                      else tracks (stop_track x w) r)\<rparr>"
    by (rule Cons.IH)
  also have "\<dots> = w\<lparr>tracks := (\<lambda>r. if r \<in> set (x # xs) then (tracks w r)\<lparr>ended := True\<rparr>
                                   else tracks w r)\<rparr>"
    by (simp add: stop_track_def fun_eq_iff)
  finally show ?case .
qed

lemma fold_set_enabled:
  "fold (set_enabled b) xs w =
     w\<lparr>tracks := (\<lambda>r. if r \<in> set xs then (tracks w r)\<lparr>enabled := b\<rparr> else tracks w r)\<rparr>"
proof (induction xs arbitrary: w)
  case Nil
  show ?case by simp
next
  case (Cons x xs)
  have "fold (set_enabled b) (x # xs) w = fold (set_enabled b) xs (set_enabled b x w)"
    by simp
  also have "\<dots> = (set_enabled b x w)
      \<lparr>tracks := (\<lambda>r. if r \<in> set xs then (tracks (set_enabled b x w) r)\<lparr>enabled := b\<rparr>
                      else tracks (set_enabled b x w) r)\<rparr>"
    by (rule Cons.IH)
  also have "\<dots> = w\<lparr>tracks := (\<lambda>r. if r \<in> set (x # xs) then (tracks w r)\<lparr>enabled := b\<rparr>
                                   else tracks w r)\<rparr>"
    by (simp add: set_enabled_def fun_eq_iff)
  finally show ?case .
qed

subsection \<open>The sample session, evaluated\<close>

lemma connected_client:
  "fst connected_state =
     \<lparr>inputAudioContext = Some 10, outputAudioContext = Some 11, nextStartTime = 0,
      stream = Some [12], sessionPromise = Some (Fulfilled (Some 13)),
      scriptProcessor = Some 15, sourceNode = Some 14, isConnected = True, audioQueue = []\<rparr>"
  by (simp add: connected_state_def connect_def granting_env_def new_LiveClient_def
        initial_world_def handleOpen_def grant_stream_def grant_track_def resume_def Let_def)

lemma connected_world:
  "next_ref (snd connected_state) = 16"
  "contexts (snd connected_state) 10 = \<lparr>ctx_state = Running, currentTime = 0, sampleRate = 48000\<rparr>"
  "contexts (snd connected_state) 11 = \<lparr>ctx_state = Running, currentTime = 0, sampleRate = 48000\<rparr>"
  "tracks (snd connected_state) 12 = \<lparr>kind = AudioKind, enabled = True, ended = False\<rparr>"
  "session_closed (snd connected_state) 13 = False"
  "node_connected (snd connected_state) 14 = True"
  "node_connected (snd connected_state) 15 = True"
  "mic_requests (snd connected_state) = 1"
  "sessions_opened (snd connected_state) = 1"
  "emitted (snd connected_state) = []"
  "started (snd connected_state) = []"
  "sent (snd connected_state) = []"
  by (simp_all add: connected_state_def connect_def granting_env_def new_LiveClient_def
        initial_world_def handleOpen_def grant_stream_def grant_track_def resume_def Let_def
        new_context_def new_track_def connect_node_def)

subsection \<open>\<^verbatim>\<open>disconnect\<close>, block by block\<close>

lemma stop_playing_audio_eq:
  "stop_playing_audio (c, w) =
     (c\<lparr>audioQueue := []\<rparr>,
      w\<lparr>sources := (\<lambda>r. if r \<in> set (audioQueue c) then (sources w r)\<lparr>stopped := True\<rparr>
                         else sources w r)\<rparr>)"
  by (simp add: stop_playing_audio_def fold_stop_source)

lemma release_sourceNode_eq:
  "release_sourceNode (c, w) =
     (c\<lparr>sourceNode := None\<rparr>,
      w\<lparr>node_connected := (\<lambda>r. if sourceNode c = Some r then False else node_connected w r)\<rparr>)"
  by (cases "sourceNode c") (simp_all add: release_sourceNode_def disconnect_node_def fun_eq_iff)

lemma release_scriptProcessor_eq:
  "release_scriptProcessor (c, w) =
     (c\<lparr>scriptProcessor := None\<rparr>,
      w\<lparr>node_connected := (\<lambda>r. if scriptProcessor c = Some r then False
                                else node_connected w r)\<rparr>)"
  by (cases "scriptProcessor c")
    (simp_all add: release_scriptProcessor_def disconnect_node_def fun_eq_iff)

lemma release_stream_eq:
  "release_stream (c, w) =
     (c\<lparr>stream := None\<rparr>,
      w\<lparr>tracks := (\<lambda>r. if r \<in> stream_tracks c then (tracks w r)\<lparr>ended := True\<rparr>
                        else tracks w r)\<rparr>)"
  by (cases "stream c") (simp_all add: release_stream_def fold_stop_track stream_tracks_def)

lemma release_session_eq:
  "release_session (c, w) =
     (c\<lparr>sessionPromise := None\<rparr>,
      w\<lparr>session_closed := (\<lambda>r. if sessionPromise c = Some (Fulfilled (Some r)) then True
                                else session_closed w r)\<rparr>)"
  by (simp add: release_session_def close_session_def fun_eq_iff
        split: option.splits promise.splits)

lemma close_if_open_eq:
  "close_if_open x w =
     w\<lparr>contexts := (\<lambda>r. if x = Some r then (contexts w r)\<lparr>ctx_state := Closed\<rparr>
                         else contexts w r)\<rparr>"
  by (cases x) (auto simp add: close_if_open_def close_context_def fun_eq_iff)

text \<open>The method as one update of the client and one of the store.\<close>

lemma disconnect_eq:
  "disconnect (c, w) =
     (c\<lparr>audioQueue := [], sourceNode := None, scriptProcessor := None, stream := None,
        sessionPromise := None, inputAudioContext := None, outputAudioContext := None,
        isConnected := False\<rparr>,
      w\<lparr>sources := (\<lambda>r. if r \<in> set (audioQueue c) then (sources w r)\<lparr>stopped := True\<rparr>
                         else sources w r),
        node_connected := (\<lambda>r. if sourceNode c = Some r \<or> scriptProcessor c = Some r then False
                                else node_connected w r),
        tracks := (\<lambda>r. if r \<in> stream_tracks c then (tracks w r)\<lparr>ended := True\<rparr>
                        else tracks w r),
        session_closed := (\<lambda>r. if sessionPromise c = Some (Fulfilled (Some r)) then True
                                else session_closed w r),
        contexts := (\<lambda>r. if inputAudioContext c = Some r \<or> outputAudioContext c = Some r
                          then (contexts w r)\<lparr>ctx_state := Closed\<rparr> else contexts w r)\<rparr>)"
  by (simp add: disconnect_def stop_playing_audio_eq release_sourceNode_eq
        release_scriptProcessor_eq release_stream_eq release_session_eq
        release_inputAudioContext_def release_outputAudioContext_def close_if_open_eq
        stream_tracks_def fun_eq_iff)

lemma released_disconnect: "released (fst (disconnect (c, w)))"
  by (simp add: disconnect_eq released_def)

subsection \<open>The two parts of \<^verbatim>\<open>connect\<close> and of \<^verbatim>\<open>disconnect\<close>\<close>

text \<open>
  \<^verbatim>\<open>connect\<close> is its part before the \<^verbatim>\<open>await\<close> followed by the settling of the
  promise, and \<^verbatim>\<open>disconnect\<close> is its two parts one after the other.
\<close>

lemma connect_in_two_steps:
  "connect env s =
     (case connect_until_await env s of
        Inl r \<Rightarrow> r
      | Inr s' \<Rightarrow> connect_settled (remote env) s')"
  by (cases s)
     (simp add: connect_def connect_until_await_def connect_settled_def Let_def
        case_prod_beta split: sum.splits option.splits)

lemma disconnect_in_two_steps:
  "disconnect s = disconnect_after_await (disconnect_until_await s)"
  by (simp add: disconnect_def disconnect_after_await_def disconnect_until_await_def)







subsection \<open>\<^verbatim>\<open>setMute\<close> as one update of the store\<close>

lemma setMute_eq:
  "setMute b (c, w) =
     (c, w\<lparr>tracks := (\<lambda>t. if t \<in> mic_tracks c w then (tracks w t)\<lparr>enabled := \<not> b\<rparr>
                         else tracks w t)\<rparr>)"
  by (cases "stream c") (simp_all add: setMute_def mic_tracks_def fold_set_enabled)

lemma mic_tracks_setMute: "mic_tracks c (snd (setMute b (c, w))) = mic_tracks c w"
  by (cases "stream c") (auto simp add: setMute_eq mic_tracks_def getAudioTracks_def)

subsection \<open>\<^verbatim>\<open>handleMessage\<close>, case by case\<close>

lemma handleTranscript_eq:
  "handleTranscript m w = w\<lparr>emitted := emitted w @ transcript_calls m\<rparr>"
  by (simp add: handleTranscript_def transcript_calls_def emit_def Let_def split: option.splits)

lemma buf_duration_nonneg: "0 \<le> buf_duration b"
  by (simp add: buf_duration_def)

lemma schedule_eq:
  "schedule out buf (c, w) =
     (let start = max (nextStartTime c) (currentTime (contexts w out)) in
      (c\<lparr>nextStartTime := start + buf_duration buf, audioQueue := audioQueue c @ [next_ref w]\<rparr>,
       w\<lparr>next_ref := Suc (next_ref w),
         sources := (sources w)
           (next_ref w := \<lparr>src_buffer = buf, startedAt = Some start, stopped = False\<rparr>),
         started := started w @ [(start, buf_duration buf)]\<rparr>))"
  by (simp add: schedule_def Let_def max_def)

lemma handleInterruption_eq:
  "handleInterruption out (c, w) =
     (c\<lparr>audioQueue := [], nextStartTime := currentTime (contexts w out)\<rparr>,
      w\<lparr>sources := (\<lambda>r. if r \<in> set (audioQueue c) then (sources w r)\<lparr>stopped := True\<rparr>
                         else sources w r)\<rparr>)"
  by (simp add: handleInterruption_def Let_def fold_stop_source)

lemma handleMessage_no_context:
  "outputAudioContext c = None \<Longrightarrow> handleMessage U m (c, w) = (c, w)"
  by (simp add: handleMessage_def)

lemma audio_buffer_cases:
  assumes "\<not> throws U m"
  obtains (silent) "audio_buffer U m = None"
      "base64Audio m = Inr None \<or> base64Audio m = Inr (Some [])"
    | (audio) data bytes buf where "audio_buffer U m = Some buf" "base64Audio m = Inr (Some data)"
      "data \<noteq> []" "base64ToUint8Array U data = Inr bytes" "even (length bytes)"
      "decodeAudioData U bytes = Inr buf"
proof (cases "base64Audio m")
  case (Inl e)
  with assms show ?thesis by (simp add: throws_def)
next
  case (Inr d)
  show ?thesis
  proof (cases d)
    case None
    with Inr show ?thesis by (intro silent) (simp_all add: audio_buffer_def)
  next
    case (Some data)
    show ?thesis
    proof (cases "data = []")
      case True
      with Inr Some show ?thesis by (intro silent) (simp_all add: audio_buffer_def)
    next
      case False
      from assms Inr Some False obtain bytes where b: "base64ToUint8Array U data = Inr bytes"
        by (cases "base64ToUint8Array U data") (simp_all add: throws_def)
      from assms Inr Some False b have ev: "even (length bytes)"
        by (simp add: throws_def)
      from assms Inr Some False b obtain buf where d: "decodeAudioData U bytes = Inr buf"
        by (cases "decodeAudioData U bytes") (simp_all add: throws_def)
      show ?thesis
        by (rule audio [of buf data bytes])
          (simp_all add: audio_buffer_def Inr Some False b ev d)
    qed
  qed
qed

lemma audio_buffer_not_throws: "audio_buffer U m = Some buf \<Longrightarrow> \<not> throws U m"
  by (auto simp add: audio_buffer_def throws_def split: sum.splits option.splits if_splits)

lemma handleMessage_silent:
  assumes "outputAudioContext c = Some out"
    and "base64Audio m = Inr None \<or> base64Audio m = Inr (Some [])"
  shows "handleMessage U m (c, w) =
           (if is_interrupted m then handleInterruption out (c, handleTranscript m w)
            else (c, handleTranscript m w))"
  using assms by (auto simp add: handleMessage_def Let_def)

lemma handleMessage_decoded:
  assumes "outputAudioContext c = Some out" and "base64Audio m = Inr (Some data)"
    and "data \<noteq> []" and "base64ToUint8Array U data = Inr bytes" and "even (length bytes)"
    and "decodeAudioData U bytes = Inr buf"
  shows "handleMessage U m (c, w) =
           (if is_interrupted m
            then handleInterruption out
                   (schedule out buf
                      (c, emit (OnAudioData (model_level bytes)) (handleTranscript m w)))
            else schedule out buf
                   (c, emit (OnAudioData (model_level bytes)) (handleTranscript m w)))"
  using assms by (simp add: handleMessage_def handleAudio_def Let_def)

text \<open>A message whose audio block throws leaves the cursor, the queue and the schedule alone.\<close>

lemma handleMessage_throws:
  assumes "throws U m"
  shows "fst (handleMessage U m (c, w)) = c \<and>
         started (snd (handleMessage U m (c, w))) = started w \<and>
         sources (snd (handleMessage U m (c, w))) = sources w"
  using assms
  by (auto simp add: handleMessage_def handleAudio_def handleTranscript_eq emit_def throws_def
        Let_def split: option.splits sum.splits if_splits)


subsection \<open>Chained schedules\<close>

lemma chained_append:
  "chained a xs b \<Longrightarrow> chained b ys c \<Longrightarrow> chained a (xs @ ys) c"
  by (induction a xs b rule: chained.induct) auto

lemma chained_mono: "chained a xs b \<Longrightarrow> a \<le> b"
  by (induction a xs b rule: chained.induct) auto

lemma chained_bounds:
  "chained a xs b \<Longrightarrow> e \<in> set xs \<Longrightarrow> a \<le> fst e \<and> 0 \<le> snd e \<and> fst e + snd e \<le> b"
proof (induction a xs b rule: chained.induct)
  case (1 t t')
  then show ?case by simp
next
  case (2 t s d es t')
  then show ?case
    using chained_mono [of "s + d" es t'] by fastforce
qed

lemma chained_sorted: "chained a xs b \<Longrightarrow> sorted_wrt no_overlap xs"
proof (induction a xs b rule: chained.induct)
  case (1 t t')
  then show ?case by simp
next
  case (2 t s d es t')
  then show ?case
    using chained_bounds [of "s + d" es t'] by (auto simp add: no_overlap_def)
qed

lemma handleMessage_chain:
  assumes quiet: "\<not> is_interrupted m"
  shows "\<exists>new. started (snd (handleMessage U m (c, w))) = started w @ new \<and>
           chained (nextStartTime c) new (nextStartTime (fst (handleMessage U m (c, w))))"
proof (cases "outputAudioContext c")
  case None
  then show ?thesis by (simp add: handleMessage_no_context)
next
  case (Some out)
  show ?thesis
  proof (cases "throws U m")
    case True
    from handleMessage_throws [OF True, of c w] show ?thesis by simp
  next
    case False
    then show ?thesis
    proof (cases rule: audio_buffer_cases)
      case silent
      from handleMessage_silent [OF Some silent(2), of U w] quiet
      show ?thesis by (simp add: handleTranscript_eq)
    next
      case (audio data bytes buf)
      from handleMessage_decoded [OF Some audio(2-6), of w] quiet
      show ?thesis
        by (simp add: handleTranscript_eq schedule_eq emit_def Let_def buf_duration_nonneg)
    qed
  qed
qed

lemma step_chain:
  assumes "case e of Message m \<Rightarrow> \<not> is_interrupted m | _ \<Rightarrow> True"
  shows "\<exists>new. started (snd (step U e (c, w))) = started w @ new \<and>
           chained (nextStartTime c) new (nextStartTime (fst (step U e (c, w))))"
proof (cases e)
  case (Message m)
  with assms show ?thesis
    using handleMessage_chain [of m U c w] by simp
next
  case (Tick dt)
  then show ?thesis
    by (auto simp add: advance_clock_def split: option.splits)
next
  case (SourceEnded src)
  then show ?thesis
    by (simp add: onended_def)
qed

lemma run_chain:
  "no_interruption evs \<Longrightarrow>
   \<exists>new. started (snd (run U evs (c, w))) = started w @ new \<and>
     chained (nextStartTime c) new (nextStartTime (fst (run U evs (c, w))))"
proof (induction evs arbitrary: c w)
  case Nil
  show ?case by simp
next
  case (Cons e es)
  obtain c1 w1 where s1: "step U e (c, w) = (c1, w1)"
    by (cases "step U e (c, w)")
  from Cons.prems have e_ok: "case e of Message m \<Rightarrow> \<not> is_interrupted m | _ \<Rightarrow> True"
    and es_ok: "no_interruption es"
    by (simp_all add: no_interruption_def)
  from step_chain [OF e_ok, of U c w] s1
  obtain n1 where n1: "started w1 = started w @ n1"
    "chained (nextStartTime c) n1 (nextStartTime c1)"
    by auto
  from Cons.IH [OF es_ok, of c1 w1]
  obtain n2 where n2: "started (snd (run U es (c1, w1))) = started w1 @ n2"
    "chained (nextStartTime c1) n2 (nextStartTime (fst (run U es (c1, w1))))"
    by auto
  have "started (snd (run U (e # es) (c, w))) = started w @ (n1 @ n2)"
    using s1 n1 n2 by simp
  moreover have "chained (nextStartTime c) (n1 @ n2)
      (nextStartTime (fst (run U (e # es) (c, w))))"
    using s1 chained_append [OF n1(2) n2(2)] by simp
  ultimately show ?case by blast
qed

lemma run_append: "run U (xs @ ys) s = run U ys (run U xs s)"
  by (induction xs arbitrary: s) simp_all

lemma no_interruption_append:
  "no_interruption (xs @ ys) \<longleftrightarrow> no_interruption xs \<and> no_interruption ys"
  by (auto simp add: no_interruption_def)

lemma handleMessage_audio:
  assumes ctx: "outputAudioContext c = Some out" and buf: "audio_buffer U m = Some buf"
    and quiet: "\<not> is_interrupted m"
  shows "(case handleMessage U m (c, w) of (c', w') \<Rightarrow>
           (let start = max (nextStartTime c) (currentTime (contexts w out)) in
            started w' = started w @ [(start, buf_duration buf)] \<and>
            nextStartTime c' = start + buf_duration buf \<and>
            audioQueue c' = audioQueue c @ [next_ref w] \<and>
            sources w' (next_ref w) =
              \<lparr>src_buffer = buf, startedAt = Some start, stopped = False\<rparr>))"
proof -
  from buf have "\<not> throws U m" by (rule audio_buffer_not_throws)
  then show ?thesis
  proof (cases rule: audio_buffer_cases)
    case silent
    with buf show ?thesis by simp
  next
    case (audio data bytes buf')
    with buf have same: "buf' = buf" by simp
    from handleMessage_decoded [OF ctx audio(2-6), of w] quiet
    show ?thesis
      by (simp add: same handleTranscript_eq schedule_eq emit_def Let_def)
  qed
qed



subsection \<open>The queue invariant\<close>


lemma queue_inv_handleOpen: "queue_inv c \<Longrightarrow> queue_inv (fst (handleOpen (c, w)))"
  by (simp add: queue_inv_def handleOpen_def Let_def)

lemma queue_inv_connect: "queue_inv c \<Longrightarrow> queue_inv (fst (snd (connect env (c, w))))"
  by (auto simp add: queue_inv_def connect_def handleOpen_def Let_def
        split: sum.splits option.splits prod.splits)

lemma queue_inv_setMute: "queue_inv c \<Longrightarrow> queue_inv (fst (setMute b (c, w)))"
  by (simp add: setMute_eq)

lemma queue_inv_handleClose: "queue_inv c \<Longrightarrow> queue_inv (fst (handleClose (c, w)))"
  by (simp add: queue_inv_def handleClose_def)

lemma queue_inv_disconnect: "queue_inv (fst (disconnect (c, w)))"
  by (simp add: queue_inv_def disconnect_eq)

lemma queue_inv_onaudioprocess: "queue_inv c \<Longrightarrow> queue_inv (fst (onaudioprocess frame (c, w)))"
  by (simp add: onaudioprocess_def Let_def split: option.splits)

lemma queue_inv_step: "queue_inv c \<Longrightarrow> queue_inv (fst (step U e (c, w)))"
proof (cases e)
  case (Message m)
  assume inv: "queue_inv c"
  show ?thesis
  proof (cases "outputAudioContext c")
    case None
    with inv Message show ?thesis by (simp add: handleMessage_no_context)
  next
    case (Some out)
    show ?thesis
    proof (cases "throws U m")
      case True
      from handleMessage_throws [OF True, of c w] inv Message show ?thesis by simp
    next
      case False
      then show ?thesis
      proof (cases rule: audio_buffer_cases)
        case silent
        from handleMessage_silent [OF Some silent(2), of U w] Some Message
        show ?thesis by (simp add: queue_inv_def handleInterruption_eq)
      next
        case (audio data bytes buf)
        from handleMessage_decoded [OF Some audio(2-6), of w] Some Message
        show ?thesis
          by (simp add: queue_inv_def handleInterruption_eq schedule_eq Let_def)
      qed
    qed
  qed
next
  case (Tick dt)
  assume "queue_inv c"
  with Tick show ?thesis
    by (simp add: queue_inv_def advance_clock_def split: option.splits)
next
  case (SourceEnded src)
  assume "queue_inv c"
  with SourceEnded show ?thesis
    by (simp add: queue_inv_def onended_def)
qed

subsection \<open>The sample session, playing\<close>

lemma audio_message_decodes:
  "base64Audio audio_message = Inr (Some ''AAAAAAAAAAAA'')"
  "base64ToUint8Array sample_utils ''AAAAAAAAAAAA'' = Inr (replicate 24 0)"
  "decodeAudioData sample_utils (replicate 24 0) = Inr \<lparr>buf_length = 12, buf_sampleRate = 24000\<rparr>"
  "audio_buffer sample_utils audio_message = Some \<lparr>buf_length = 12, buf_sampleRate = 24000\<rparr>"
  "\<not> is_interrupted audio_message"
  "buf_duration \<lparr>buf_length = 12, buf_sampleRate = 24000\<rparr> = 1 / 2000"
  by (simp_all add: audio_message_def base64Audio_def sample_utils_def audio_buffer_def
        is_interrupted_def buf_duration_def)


lemma playing_state_eq:
  "playing_state =
     schedule 11 \<lparr>buf_length = 12, buf_sampleRate = 24000\<rparr>
       (fst connected_state,
        emit (OnAudioData (model_level (replicate 24 0)))
          (handleTranscript audio_message (snd connected_state)))"
proof -
  have ctx: "outputAudioContext (fst connected_state) = Some 11"
    by (simp add: connected_client)
  have "handleMessage sample_utils audio_message (fst connected_state, snd connected_state) =
      schedule 11 \<lparr>buf_length = 12, buf_sampleRate = 24000\<rparr>
       (fst connected_state,
        emit (OnAudioData (model_level (replicate 24 0)))
          (handleTranscript audio_message (snd connected_state)))"
    using handleMessage_decoded [OF ctx audio_message_decodes(1) _ audio_message_decodes(2) _
        audio_message_decodes(3), of "snd connected_state"] audio_message_decodes(5)
    by simp
  then show ?thesis by (simp add: playing_state_def)
qed

lemma playing_client:
  "fst playing_state =
     \<lparr>inputAudioContext = Some 10, outputAudioContext = Some 11, nextStartTime = 1 / 2000,
      stream = Some [12], sessionPromise = Some (Fulfilled (Some 13)),
      scriptProcessor = Some 15, sourceNode = Some 14, isConnected = True, audioQueue = [16]\<rparr>"
  by (simp add: playing_state_eq schedule_eq connected_client connected_world Let_def
        handleTranscript_eq emit_def audio_message_decodes(6))

lemma playing_world:
  "next_ref (snd playing_state) = 17"
  "contexts (snd playing_state) 10 = \<lparr>ctx_state = Running, currentTime = 0, sampleRate = 48000\<rparr>"
  "contexts (snd playing_state) 11 = \<lparr>ctx_state = Running, currentTime = 0, sampleRate = 48000\<rparr>"
  "tracks (snd playing_state) 12 = \<lparr>kind = AudioKind, enabled = True, ended = False\<rparr>"
  "session_closed (snd playing_state) 13 = False"
  "node_connected (snd playing_state) 14 = True"
  "node_connected (snd playing_state) 15 = True"
  "sources (snd playing_state) 16 =
     \<lparr>src_buffer = \<lparr>buf_length = 12, buf_sampleRate = 24000\<rparr>, startedAt = Some 0, stopped = False\<rparr>"
  "started (snd playing_state) = [(0, 1 / 2000)]"
  by (simp_all add: playing_state_eq schedule_eq connected_client connected_world Let_def
        handleTranscript_eq emit_def audio_message_decodes(6))




section \<open>The claims\<close>

subsection \<open>C10: \<^verbatim>\<open>connect()\<close> on a connected client\<close>

text \<open>
  Claim C10. Calling \<^verbatim>\<open>connect()\<close> while \<^verbatim>\<open>isConnected\<close> is true returns at once and
  does nothing: it returns without an error, no field of the client changes and the
  store is the same, so no audio context is created (the reference counter stands),
  the microphone is not requested again and no second session is opened.
\<close>

theorem connect_while_connected_is_noop:
  "isConnected c \<Longrightarrow>
     (case connect env (c, w) of (r, c', w') \<Rightarrow>
        r = None \<and> c' = c \<and> w' = w \<and> next_ref w' = next_ref w \<and>
        mic_requests w' = mic_requests w \<and> sessions_opened w' = sessions_opened w)"
  by (simp add: connect_def)

theorem connect_while_connected_is_noop_witness:
  "isConnected (fst connected_state) \<and>
   connect denying_env connected_state = (None, connected_state) \<and>
   connect granting_env connected_state = (None, connected_state)"
proof -
  have h: "isConnected (fst connected_state)"
    by (simp add: connected_client)
  from connect_while_connected_is_noop
      [OF h, where env = denying_env and w = "snd connected_state", unfolded prod.collapse]
    connect_while_connected_is_noop
      [OF h, where env = granting_env and w = "snd connected_state", unfolded prod.collapse]
    h
  show ?thesis
    by (simp add: case_prod_beta prod_eq_iff)
qed

subsection \<open>C8: \<^verbatim>\<open>setMute\<close>\<close>

text \<open>
  Claim C8. \<^verbatim>\<open>setMute(b)\<close> has no error result; it leaves the client as it is (its
  stream, session promise, contexts, cursor and playback queue) and changes nothing in
  the store but the \<^verbatim>\<open>enabled\<close> flag of the audio tracks of the client's stream, which
  becomes \<open>\<not> b\<close>. After \<^verbatim>\<open>setMute(true)\<close> then \<^verbatim>\<open>setMute(false)\<close> every such track is
  enabled, with the same stream and tracks as before and without a new microphone
  request.
\<close>

theorem setMute_only_flips_enabled:
  "(case setMute b (c, w) of (c1, w1) \<Rightarrow>
      c1 = c \<and> w1 = w\<lparr>tracks := tracks w1\<rparr> \<and>
      (\<forall>t \<in> mic_tracks c w. tracks w1 t = (tracks w t)\<lparr>enabled := \<not> b\<rparr>) \<and>
      (\<forall>t. t \<notin> mic_tracks c w \<longrightarrow> tracks w1 t = tracks w t)) \<and>
   (case setMute False (setMute True (c, w)) of (c2, w2) \<Rightarrow>
      c2 = c \<and> w2 = w\<lparr>tracks := tracks w2\<rparr> \<and>
      mic_requests w2 = mic_requests w \<and> next_ref w2 = next_ref w \<and>
      mic_tracks c w2 = mic_tracks c w \<and>
      (\<forall>t \<in> mic_tracks c w. tracks w2 t = (tracks w t)\<lparr>enabled := True\<rparr>) \<and>
      (\<forall>t. t \<notin> mic_tracks c w \<longrightarrow> tracks w2 t = tracks w t))"
proof -
  have keep: "mic_tracks c (w\<lparr>tracks := f\<rparr>) = mic_tracks c w"
    if "\<And>t. kind (f t) = kind (tracks w t)" for f
    using that by (cases "stream c") (simp_all add: mic_tracks_def getAudioTracks_def)
  show ?thesis
    by (simp add: setMute_eq keep)
qed

theorem setMute_only_flips_enabled_witness:
  "12 \<in> mic_tracks (fst connected_state) (snd connected_state) \<and>
   13 \<notin> mic_tracks (fst connected_state) (snd connected_state) \<and>
   \<not> enabled (tracks (snd (setMute True connected_state)) 12) \<and>
   enabled (tracks (snd (setMute False (setMute True connected_state))) 12) \<and>
   fst (setMute False (setMute True connected_state)) = fst connected_state \<and>
   mic_requests (snd (setMute False (setMute True connected_state))) = 1"
proof -
  have t: "mic_tracks (fst connected_state) (snd connected_state) = {12}"
    by (simp add: mic_tracks_def connected_client getAudioTracks_def connected_world)
  from setMute_only_flips_enabled
    [where b = True and c = "fst connected_state" and w = "snd connected_state",
      unfolded prod.collapse] t
  show ?thesis
    by (simp add: case_prod_beta connected_world)
qed

subsection \<open>C3: \<^verbatim>\<open>disconnect()\<close>\<close>






subsection \<open>C1: the playback cursor\<close>

text \<open>
  Claim C1. Over any sequence of inbound messages handled with no interruption among
  them (the clock may move and sources may end in between), the playback cursor
  \<^verbatim>\<open>nextStartTime\<close> never decreases, at the end of the sequence or at any point
  inside it; the buffers started during the sequence form a chain from the cursor's
  first value to its last, each starting at or after the cursor left by the one
  before and moving the cursor to its own end, so that no two of their playback
  intervals overlap. A message whose audio decodes to a buffer starts it exactly at
  the cursor, lifted to the output clock's current time when the cursor has fallen
  behind, tracks it in the queue, and advances the cursor by exactly the buffer's
  duration. (Times are real numbers in the model.)
\<close>

theorem cursor_monotone_no_overlap:
  "(no_interruption evs \<longrightarrow>
      (case run U evs (c, w) of (c', w') \<Rightarrow>
         nextStartTime c \<le> nextStartTime c' \<and>
         take (length (started w)) (started w') = started w \<and>
         chained (nextStartTime c) (drop (length (started w)) (started w')) (nextStartTime c') \<and>
         sorted_wrt no_overlap (drop (length (started w)) (started w'))) \<and>
      (\<forall>es1 es2. evs = es1 @ es2 \<longrightarrow>
         nextStartTime (fst (run U es1 (c, w))) \<le> nextStartTime (fst (run U evs (c, w))))) \<and>
   (outputAudioContext c = Some out \<and> audio_buffer U m = Some buf \<and> \<not> is_interrupted m \<longrightarrow>
      (case handleMessage U m (c, w) of (c', w') \<Rightarrow>
         (let start = max (nextStartTime c) (currentTime (contexts w out)) in
            started w' = started w @ [(start, buf_duration buf)] \<and>
            nextStartTime c' = start + buf_duration buf \<and>
            audioQueue c' = audioQueue c @ [next_ref w] \<and>
            sources w' (next_ref w) =
              \<lparr>src_buffer = buf, startedAt = Some start, stopped = False\<rparr>)))"
proof (intro conjI impI allI)
  assume ok: "no_interruption evs"
  from run_chain [OF ok, of U c w]
  obtain new where new: "started (snd (run U evs (c, w))) = started w @ new"
    "chained (nextStartTime c) new (nextStartTime (fst (run U evs (c, w))))"
    by blast
  show "case run U evs (c, w) of (c', w') \<Rightarrow>
         nextStartTime c \<le> nextStartTime c' \<and>
         take (length (started w)) (started w') = started w \<and>
         chained (nextStartTime c) (drop (length (started w)) (started w')) (nextStartTime c') \<and>
         sorted_wrt no_overlap (drop (length (started w)) (started w'))"
    using new chained_mono [OF new(2)] chained_sorted [OF new(2)]
    by (simp add: case_prod_beta)
next
  fix es1 es2
  assume ok: "no_interruption evs" and split: "evs = es1 @ es2"
  obtain c1 w1 where s1: "run U es1 (c, w) = (c1, w1)"
    by (cases "run U es1 (c, w)")
  from ok split have "no_interruption es2"
    by (simp add: no_interruption_append)
  from run_chain [OF this, of U c1 w1]
  obtain new where "chained (nextStartTime c1) new (nextStartTime (fst (run U es2 (c1, w1))))"
    by blast
  from chained_mono [OF this]
  show "nextStartTime (fst (run U es1 (c, w))) \<le> nextStartTime (fst (run U evs (c, w)))"
    using s1 split by (simp add: run_append)
next
  assume "outputAudioContext c = Some out \<and> audio_buffer U m = Some buf \<and> \<not> is_interrupted m"
  then show "case handleMessage U m (c, w) of (c', w') \<Rightarrow>
         (let start = max (nextStartTime c) (currentTime (contexts w out)) in
            started w' = started w @ [(start, buf_duration buf)] \<and>
            nextStartTime c' = start + buf_duration buf \<and>
            audioQueue c' = audioQueue c @ [next_ref w] \<and>
            sources w' (next_ref w) =
              \<lparr>src_buffer = buf, startedAt = Some start, stopped = False\<rparr>)"
    using handleMessage_audio [of c out U m buf w] by simp
qed

theorem cursor_monotone_no_overlap_witness:
  "no_interruption [Message audio_message, Tick 1, Message audio_message] \<and>
   outputAudioContext (fst playing_state) = Some 11 \<and>
   audio_buffer sample_utils audio_message = Some \<lparr>buf_length = 12, buf_sampleRate = 24000\<rparr> \<and>
   \<not> is_interrupted audio_message \<and>
   nextStartTime (fst playing_state) = 1 / 2000 \<and>
   nextStartTime (fst playing_state)
     \<le> nextStartTime (fst (run sample_utils [Message audio_message, Tick 1, Message audio_message]
                              playing_state)) \<and>
   sorted_wrt no_overlap
     (drop 1 (started (snd (run sample_utils [Message audio_message, Tick 1, Message audio_message]
                              playing_state)))) \<and>
   started (snd (handleMessage sample_utils audio_message playing_state))
     = [(0, 1 / 2000), (1 / 2000, 1 / 2000)] \<and>
   nextStartTime (fst (handleMessage sample_utils audio_message playing_state)) = 1 / 1000 \<and>
   audioQueue (fst (handleMessage sample_utils audio_message playing_state)) = [16, 17]"
proof -
  have quiet: "no_interruption [Message audio_message, Tick 1, Message audio_message]"
    by (simp add: no_interruption_def audio_message_decodes)
  have pre: "outputAudioContext (fst playing_state) = Some 11 \<and>
      audio_buffer sample_utils audio_message = Some \<lparr>buf_length = 12, buf_sampleRate = 24000\<rparr> \<and>
      \<not> is_interrupted audio_message"
    by (simp add: playing_client audio_message_decodes)
  note inst = cursor_monotone_no_overlap
    [where evs = "[Message audio_message, Tick 1, Message audio_message]"
       and U = sample_utils and c = "fst playing_state" and w = "snd playing_state"
       and out = 11 and m = audio_message
       and buf = "\<lparr>buf_length = 12, buf_sampleRate = 24000\<rparr>", unfolded prod.collapse]
  from inst quiet pre show ?thesis
    by (simp add: case_prod_beta playing_client playing_world audio_message_decodes(6) Let_def)
qed

subsection \<open>C2: interruption\<close>




subsection \<open>C9: the level reported by the capture callback\<close>

lemma onaudioprocess_emitted:
  assumes "inputAudioContext c = Some i"
  shows "emitted (snd (onaudioprocess frame (c, w))) =
           emitted w @
           (case frame_rms frame of
              NaN \<Rightarrow> []
            | Num rms \<Rightarrow> if rms > 0.01 then [OnAudioData (Num (min 1 (rms * 5)))] else [])"
  using assms
  by (simp add: onaudioprocess_def Let_def emit_def
        split: js_number.splits option.splits promise.splits)

lemma onaudioprocess_client: "fst (onaudioprocess frame (c, w)) = c"
  by (simp add: onaudioprocess_def Let_def split: option.splits)

lemma fold_squares_nonneg: "0 \<le> s \<Longrightarrow> 0 \<le> fold (\<lambda>x sum. sum + x * x) xs (s::real)"
  by (induction xs arbitrary: s) simp_all

lemma frame_rms_nonneg: "frame_rms frame = Num r \<Longrightarrow> 0 \<le> r"
  using fold_squares_nonneg [of 0 frame]
  by (auto simp add: frame_rms_def split: if_splits)

lemma fold_squares_replicate:
  "fold (\<lambda>x sum. sum + x * x) (replicate n a) s = s + real n * (a * a)"
  by (induction n arbitrary: s) (simp_all add: algebra_simps del: fold_replicate)

lemma frame_rms_constant: "0 < n \<Longrightarrow> 0 \<le> a \<Longrightarrow> frame_rms (replicate n a) = Num a"
  by (simp add: frame_rms_def fold_squares_replicate del: fold_replicate)

text \<open>
  Claim C9, as stated, fails twice on a frame of 2048 samples of value \<open>1/8\<close>, whose
  root-mean-square is \<open>1/8\<close>, above the noise floor \<open>0.01\<close>: a connected client reports
  the level \<open>5/8\<close>, which is not the root-mean-square of the frame; and a client
  without an input context, a new one or the connected one after \<^verbatim>\<open>disconnect()\<close>,
  reports nothing.
\<close>

theorem capture_level_counterexample:
  "frame_rms (replicate 2048 (1 / 8)) = Num (1 / 8) \<and> (1 / 8 :: real) > 0.01 \<and>
   emitted (snd (onaudioprocess (replicate 2048 (1 / 8)) connected_state))
     = [OnAudioData (Num (5 / 8))] \<and>
   Num (5 / 8) \<noteq> frame_rms (replicate 2048 (1 / 8)) \<and>
   inputAudioContext new_LiveClient = None \<and>
   emitted (snd (onaudioprocess (replicate 2048 (1 / 8)) (new_LiveClient, initial_world))) = [] \<and>
   inputAudioContext (fst (disconnect connected_state)) = None \<and>
   emitted (snd (onaudioprocess (replicate 2048 (1 / 8)) (disconnect connected_state))) = []"
proof -
  have rms: "frame_rms (replicate 2048 (1 / 8)) = Num (1 / 8)"
    by (rule frame_rms_constant) simp_all
  have ctx: "inputAudioContext (fst connected_state) = Some 10"
    by (simp add: connected_client)
  note d = disconnect_eq
    [of "fst connected_state" "snd connected_state", unfolded prod.collapse]
  from onaudioprocess_emitted [OF ctx, of "replicate 2048 (1 / 8)" "snd connected_state"]
  have "emitted (snd (onaudioprocess (replicate 2048 (1 / 8)) connected_state))
      = [OnAudioData (Num (5 / 8))]"
    by (simp add: rms connected_world)
  moreover have "emitted (snd (onaudioprocess (replicate 2048 (1 / 8))
      (new_LiveClient, initial_world))) = []"
    by (simp add: onaudioprocess_def new_LiveClient_def initial_world_def)
  moreover have "inputAudioContext (fst (disconnect connected_state)) = None \<and>
      emitted (snd (onaudioprocess (replicate 2048 (1 / 8)) (disconnect connected_state))) = []"
    by (simp add: d onaudioprocess_def connected_world)
  ultimately show ?thesis
    by (simp add: rms new_LiveClient_def)
qed

text \<open>
  Claim C9, amended. While the client has an input audio context, the capture callback
  computes the root-mean-square of the frame's samples and reports a level if and only
  if that root-mean-square exceeds the noise floor \<open>0.01\<close>; the level reported is the
  root-mean-square times five, capped at one, and lies in \<open>[0,1]\<close>; the client is
  unchanged. Once the client has no input context the callback does nothing.
\<close>

theorem capture_level:
  "(inputAudioContext c \<noteq> None \<longrightarrow>
      (case onaudioprocess frame (c, w) of (c', w') \<Rightarrow>
         c' = c \<and>
         emitted w' =
           emitted w @
           (case frame_rms frame of
              NaN \<Rightarrow> []
            | Num rms \<Rightarrow> if rms > 0.01 then [OnAudioData (Num (min 1 (rms * 5)))] else []) \<and>
         (\<forall>x. OnAudioData x \<in> set (drop (length (emitted w)) (emitted w')) \<longrightarrow>
            (\<exists>rms. frame_rms frame = Num rms \<and> rms > 0.01 \<and> x = Num (min 1 (rms * 5)) \<and>
                   0 \<le> min 1 (rms * 5) \<and> min 1 (rms * 5) \<le> 1)))) \<and>
   (inputAudioContext c = None \<longrightarrow> onaudioprocess frame (c, w) = (c, w))"
proof (intro conjI impI)
  assume "inputAudioContext c \<noteq> None"
  then obtain i where i: "inputAudioContext c = Some i" by auto
  show "case onaudioprocess frame (c, w) of (c', w') \<Rightarrow>
         c' = c \<and>
         emitted w' =
           emitted w @
           (case frame_rms frame of
              NaN \<Rightarrow> []
            | Num rms \<Rightarrow> if rms > 0.01 then [OnAudioData (Num (min 1 (rms * 5)))] else []) \<and>
         (\<forall>x. OnAudioData x \<in> set (drop (length (emitted w)) (emitted w')) \<longrightarrow>
            (\<exists>rms. frame_rms frame = Num rms \<and> rms > 0.01 \<and> x = Num (min 1 (rms * 5)) \<and>
                   0 \<le> min 1 (rms * 5) \<and> min 1 (rms * 5) \<le> 1))"
    using onaudioprocess_emitted [OF i, of frame w] onaudioprocess_client [of frame c w]
      frame_rms_nonneg [of frame]
    by (auto simp add: case_prod_beta split: js_number.splits if_splits)
next
  assume "inputAudioContext c = None"
  then show "onaudioprocess frame (c, w) = (c, w)"
    by (simp add: onaudioprocess_def)
qed

theorem capture_level_witness:
  "inputAudioContext (fst connected_state) \<noteq> None \<and>
   frame_rms (replicate 2048 (1 / 8)) = Num (1 / 8) \<and>
   frame_rms (replicate 2048 (1 / 128)) = Num (1 / 128) \<and>
   emitted (snd (onaudioprocess (replicate 2048 (1 / 8)) connected_state))
     = [OnAudioData (Num (5 / 8))] \<and>
   emitted (snd (onaudioprocess (replicate 2048 (1 / 128)) connected_state)) = [] \<and>
   inputAudioContext new_LiveClient = None \<and>
   onaudioprocess (replicate 2048 (1 / 8)) (new_LiveClient, initial_world)
     = (new_LiveClient, initial_world)"
proof -
  have loud: "frame_rms (replicate 2048 (1 / 8)) = Num (1 / 8)"
    by (rule frame_rms_constant) simp_all
  have quiet: "frame_rms (replicate 2048 (1 / 128)) = Num (1 / 128)"
    by (rule frame_rms_constant) simp_all
  have ctx: "inputAudioContext (fst connected_state) \<noteq> None"
    by (simp add: connected_client)
  have none: "inputAudioContext new_LiveClient = None"
    by (simp add: new_LiveClient_def)
  from capture_level [where c = "fst connected_state" and w = "snd connected_state"
      and frame = "replicate 2048 (1 / 8)", unfolded prod.collapse]
    capture_level [where c = "fst connected_state" and w = "snd connected_state"
      and frame = "replicate 2048 (1 / 128)", unfolded prod.collapse]
    capture_level [where c = new_LiveClient and w = initial_world
      and frame = "replicate 2048 (1 / 8)"]
    ctx none
  show ?thesis
    by (simp add: case_prod_beta loud quiet connected_world)
qed

subsection \<open>C5: a grading that fails\<close>

lemma gradeCall_try_fails:
  "grading_fails env t persona lang \<longleftrightarrow> (\<exists>e. gradeCall_try env t persona lang = Inl e)"
  by (auto simp add: grading_fails_def gradeCall_try_def split: sum.splits option.splits)

lemma gradeCall_resolves: "\<exists>g. gradeCall env t persona lang = Inr g"
  by (simp add: gradeCall_def split: sum.splits)

lemma gradeCall_fallback:
  "grading_fails env t persona lang \<Longrightarrow> gradeCall env t persona lang = Inr grading_fallback"
  by (auto simp add: gradeCall_try_fails gradeCall_def)

lemma handleEndCall_eq:
  assumes "selectedPersona app = Some persona"
    and "gradeCall env t persona (language app) = Inr grading"
  shows "handleEndCall env now_id now_ts t app =
     (let newSession =
            \<lparr>session_id = toString now_id, timestamp = now_ts,
             session_playerName = playerName app, personaId = persona_id persona,
             durationSeconds = 0, session_transcript = t, overallScore = score grading,
             session_rubric = rubric grading, session_summary = summary grading\<rparr>
      in app\<lparr>sessions := newSession # sessions app,
             stored_sessions := Some (newSession # sessions app),
             currentSession := Some newSession, isProcessing := False,
             appState := FEEDBACK\<rparr>)"
  using assms by (simp add: handleEndCall_def Let_def)

text \<open>
  Claim C5. For every transcript, persona and language, \<^verbatim>\<open>gradeCall\<close> resolves and
  never rejects; when the grading fails (no API key, a failed request, a response that
  does not parse to an object) it resolves with the default: the score 50, which lies
  in \<open>[0,100]\<close>, a non-empty summary and one rubric item. \<^verbatim>\<open>handleEndCall\<close> then
  builds a session record with that score and summary and the transcript it was given,
  stores it, clears the processing flag and shows the feedback screen. (The request is
  taken to settle and the write to the local storage to succeed.)
\<close>

theorem grading_failure_yields_default:
  "(\<exists>g. gradeCall env t persona lang = Inr g) \<and>
   (grading_fails env t persona lang \<longrightarrow>
      gradeCall env t persona lang = Inr grading_fallback \<and>
      score grading_fallback = 50 \<and> 0 \<le> score grading_fallback \<and>
      score grading_fallback \<le> 100 \<and> summary grading_fallback \<noteq> [] \<and>
      (\<forall>app. selectedPersona app = Some persona \<and> language app = lang \<longrightarrow>
         (\<exists>cs. currentSession (handleEndCall env now_id now_ts t app) = Some cs \<and>
               sessions (handleEndCall env now_id now_ts t app) = cs # sessions app \<and>
               stored_sessions (handleEndCall env now_id now_ts t app) = Some (cs # sessions app) \<and>
               overallScore cs = 50 \<and> session_summary cs \<noteq> [] \<and>
               session_transcript cs = t \<and> personaId cs = persona_id persona) \<and>
         \<not> isProcessing (handleEndCall env now_id now_ts t app) \<and>
         appState (handleEndCall env now_id now_ts t app) = FEEDBACK))"
proof (intro conjI impI allI)
  show "\<exists>g. gradeCall env t persona lang = Inr g"
    by (rule gradeCall_resolves)
next
  assume "grading_fails env t persona lang"
  then show "gradeCall env t persona lang = Inr grading_fallback"
    by (rule gradeCall_fallback)
next
  show "score grading_fallback = 50" "0 \<le> score grading_fallback"
    "score grading_fallback \<le> 100" "summary grading_fallback \<noteq> []"
    by (simp_all add: grading_fallback_def)
next
  fix app :: App
  assume fails: "grading_fails env t persona lang"
    and app: "selectedPersona app = Some persona \<and> language app = lang"
  from gradeCall_fallback [OF fails] app
  have g: "gradeCall env t persona (language app) = Inr grading_fallback"
    by simp
  from app have p: "selectedPersona app = Some persona" by simp
  note eq = handleEndCall_eq [OF p g, of now_id now_ts]
  show "\<exists>cs. currentSession (handleEndCall env now_id now_ts t app) = Some cs \<and>
         sessions (handleEndCall env now_id now_ts t app) = cs # sessions app \<and>
         stored_sessions (handleEndCall env now_id now_ts t app) = Some (cs # sessions app) \<and>
         overallScore cs = 50 \<and> session_summary cs \<noteq> [] \<and>
         session_transcript cs = t \<and> personaId cs = persona_id persona"
    by (simp add: eq Let_def grading_fallback_def)
  show "\<not> isProcessing (handleEndCall env now_id now_ts t app)"
    by (simp add: eq Let_def)
  show "appState (handleEndCall env now_id now_ts t app) = FEEDBACK"
    by (simp add: eq Let_def)
qed

theorem grading_failure_yields_default_witness:
  "grading_fails keyless_env ''You: hello'' sample_persona En \<and>
   selectedPersona sample_app = Some sample_persona \<and> language sample_app = En \<and>
   gradeCall keyless_env ''You: hello'' sample_persona En = Inr grading_fallback \<and>
   map overallScore (sessions (handleEndCall keyless_env 7 7 ''You: hello'' sample_app)) = [50] \<and>
   \<not> isProcessing (handleEndCall keyless_env 7 7 ''You: hello'' sample_app) \<and>
   appState (handleEndCall keyless_env 7 7 ''You: hello'' sample_app) = FEEDBACK"
proof -
  have fails: "grading_fails keyless_env ''You: hello'' sample_persona En"
    by (simp add: grading_fails_def keyless_env_def)
  have app: "selectedPersona sample_app = Some sample_persona \<and> language sample_app = En"
    by (simp add: sample_app_def)
  have none: "sessions sample_app = []"
    by (simp add: sample_app_def)
  from grading_failure_yields_default
    [where env = keyless_env and t = "''You: hello''" and persona = sample_persona
       and lang = En and now_id = 7 and now_ts = 7] fails
  have g: "gradeCall keyless_env ''You: hello'' sample_persona En = Inr grading_fallback"
    and rest: "\<forall>app. selectedPersona app = Some sample_persona \<and> language app = En \<longrightarrow>
         (\<exists>cs. currentSession (handleEndCall keyless_env 7 7 ''You: hello'' app) = Some cs \<and>
               sessions (handleEndCall keyless_env 7 7 ''You: hello'' app) = cs # sessions app \<and>
               stored_sessions (handleEndCall keyless_env 7 7 ''You: hello'' app)
                 = Some (cs # sessions app) \<and>
               overallScore cs = 50 \<and> session_summary cs \<noteq> [] \<and>
               session_transcript cs = ''You: hello'' \<and>
               personaId cs = persona_id sample_persona) \<and>
         \<not> isProcessing (handleEndCall keyless_env 7 7 ''You: hello'' app) \<and>
         appState (handleEndCall keyless_env 7 7 ''You: hello'' app) = FEEDBACK"
    by simp_all
  from rest [rule_format, OF app] none
  have "map overallScore (sessions (handleEndCall keyless_env 7 7 ''You: hello'' sample_app)) = [50] \<and>
      \<not> isProcessing (handleEndCall keyless_env 7 7 ''You: hello'' sample_app) \<and>
      appState (handleEndCall keyless_env 7 7 ''You: hello'' sample_app) = FEEDBACK"
    by auto
  with fails app g show ?thesis by simp
qed

subsection \<open>The sample call, evaluated\<close>

lemma connect_granting:
  "connect granting_env (new_LiveClient, initial_world) = (None, connected_state)"
proof -
  have "fst (connect granting_env (new_LiveClient, initial_world)) = None"
    by (simp add: connect_def granting_env_def new_LiveClient_def handleOpen_def
          grant_stream_def grant_track_def Let_def split: prod.splits)
  then show ?thesis
    by (simp add: connected_state_def prod_eq_iff)
qed

lemma connected_call_eq:
  "connected_call =
     (mounted_ActiveCall
        \<lparr>client := Some (fst connected_state), liveClientRef := True, status := Connected,
         timerRef := Some 1, interval_running := True\<rparr>,
      snd connected_state)"
  by (simp add: connected_call_def startCall_def sample_start_env_def connect_granting
        mounted_ActiveCall_def Let_def case_prod_beta)

lemma funpow_tick:
  "interval_running a \<Longrightarrow> isMountedRef a \<Longrightarrow> (tick ^^ n) a = a\<lparr>duration := duration a + n\<rparr>"
proof (induction n)
  case 0
  show ?case by simp
next
  case (Suc n)
  then show ?case by (simp add: tick_def)
qed

lemma five_second_call_eq:
  "fst five_second_call =
     mounted_ActiveCall
       \<lparr>client := Some (fst connected_state), liveClientRef := True, status := Connected,
        timerRef := Some 1, interval_running := True,
        transcriptRef := ''You: Hello'' @ [CHR 0x0A], transcript := ''You: Hello'' @ [CHR 0x0A],
        duration := 5\<rparr>"
  "snd five_second_call = snd connected_state"
proof -
  let ?a = "onTranscript sample_persona ''Hello'' True (fst connected_call)"
  have a: "?a = mounted_ActiveCall
       \<lparr>client := Some (fst connected_state), liveClientRef := True, status := Connected,
        timerRef := Some 1, interval_running := True,
        transcriptRef := ''You: Hello'' @ [CHR 0x0A], transcript := ''You: Hello'' @ [CHR 0x0A]\<rparr>"
    by (simp add: connected_call_eq onTranscript_def mounted_ActiveCall_def Let_def)
  have "interval_running ?a" "isMountedRef ?a" "duration ?a = 0"
    by (simp_all add: a mounted_ActiveCall_def)
  from funpow_tick [OF this(1,2), of 5] this(3)
  show "fst five_second_call =
     mounted_ActiveCall
       \<lparr>client := Some (fst connected_state), liveClientRef := True, status := Connected,
        timerRef := Some 1, interval_running := True,
        transcriptRef := ''You: Hello'' @ [CHR 0x0A], transcript := ''You: Hello'' @ [CHR 0x0A],
        duration := 5\<rparr>"
    by (simp add: five_second_call_def a mounted_ActiveCall_def)
  show "snd five_second_call = snd connected_state"
    by (simp add: five_second_call_def connected_call_eq)
qed

subsection \<open>\<^verbatim>\<open>handleHangUp\<close>\<close>

lemma handleHangUp_calls:
  "onEndCall_calls (fst (handleHangUp (a, w))) = onEndCall_calls a @ [transcriptRef a]"
  by (simp add: handleHangUp_def Let_def case_prod_beta split: option.splits)

lemma handleHangUp_client:
  assumes "liveClientRef a" and "client a = Some c"
  shows "client (fst (handleHangUp (a, w))) = Some (fst (disconnect (c, w))) \<and>
         snd (handleHangUp (a, w)) = snd (disconnect (c, w))"
  using assms by (simp add: handleHangUp_def Let_def case_prod_beta)

lemma handleHangUp_duration: "duration (fst (handleHangUp (a, w))) = duration a"
  by (simp add: handleHangUp_def Let_def case_prod_beta split: option.splits)

subsection \<open>C6: the session record of a completed call\<close>

text \<open>
  The record \<^verbatim>\<open>handleEndCall\<close> builds has \<^verbatim>\<open>durationSeconds\<close> zero, whatever the call.
\<close>

lemma handleEndCall_duration_zero:
  assumes "selectedPersona app = Some persona"
  shows "\<exists>cs. currentSession (handleEndCall env now_id now_ts t app) = Some cs \<and>
           sessions (handleEndCall env now_id now_ts t app) = cs # sessions app \<and>
           durationSeconds cs = 0"
proof -
  obtain g where g: "gradeCall env t persona (language app) = Inr g"
    using gradeCall_resolves by blast
  show ?thesis
    by (simp add: handleEndCall_eq [OF assms g] Let_def)
qed

text \<open>
  Claim C6 on a call of five seconds. The counter of the component reads 5 when the
  user hangs up; \<^verbatim>\<open>handleHangUp\<close> calls \<^verbatim>\<open>onEndCall\<close> once, with the transcript alone;
  the one record \<^verbatim>\<open>handleEndCall\<close> then adds has the persona's id, the transcript
  and the score, and \<^verbatim>\<open>durationSeconds\<close> 0 where the claim has the elapsed 5.
\<close>

theorem call_record_drops_duration:
  "duration (fst five_second_call) = 5 \<and>
   duration (fst (handleHangUp five_second_call)) = 5 \<and>
   onEndCall_calls (fst (handleHangUp five_second_call)) = [''You: Hello'' @ [CHR 0x0A]] \<and>
   map durationSeconds
     (sessions (handleEndCall answering_env 7 7 (''You: Hello'' @ [CHR 0x0A]) sample_app)) = [0] \<and>
   map personaId
     (sessions (handleEndCall answering_env 7 7 (''You: Hello'' @ [CHR 0x0A]) sample_app))
     = [''p1''] \<and>
   map session_transcript
     (sessions (handleEndCall answering_env 7 7 (''You: Hello'' @ [CHR 0x0A]) sample_app))
     = [''You: Hello'' @ [CHR 0x0A]] \<and>
   map overallScore
     (sessions (handleEndCall answering_env 7 7 (''You: Hello'' @ [CHR 0x0A]) sample_app)) = [80]"
proof -
  have d: "duration (fst five_second_call) = 5"
    by (simp add: five_second_call_eq)
  have h: "duration (fst (handleHangUp five_second_call)) = 5"
    using handleHangUp_duration
      [of "fst five_second_call" "snd five_second_call", unfolded prod.collapse] d
    by simp
  have e: "onEndCall_calls (fst (handleHangUp five_second_call)) = [''You: Hello'' @ [CHR 0x0A]]"
    using handleHangUp_calls
      [of "fst five_second_call" "snd five_second_call", unfolded prod.collapse]
    by (simp add: five_second_call_eq(1) mounted_ActiveCall_def)
  have p: "selectedPersona sample_app = Some sample_persona"
    by (simp add: sample_app_def)
  have g: "gradeCall answering_env (''You: Hello'' @ [CHR 0x0A]) sample_persona (language sample_app)
      = Inr \<lparr>score = 80, rubric = [], summary = ''Good''\<rparr>"
    by (simp add: gradeCall_def gradeCall_try_def answering_env_def)
  have "sessions (handleEndCall answering_env 7 7 (''You: Hello'' @ [CHR 0x0A]) sample_app) =
      [\<lparr>session_id = toString 7, timestamp = 7, session_playerName = ''Ann'',
        personaId = ''p1'', durationSeconds = 0,
        session_transcript = ''You: Hello'' @ [CHR 0x0A], overallScore = 80,
        session_rubric = [], session_summary = ''Good''\<rparr>]"
    unfolding handleEndCall_eq [OF p g, of 7 7]
    by (simp add: Let_def sample_app_def sample_persona_def)
  with d h e show ?thesis by simp
qed

subsection \<open>C7: the end-of-call marker\<close>

lemma onTranscript_mounted:
  assumes "isMountedRef a"
  shows "onTranscript persona said isUser a =
     a\<lparr>transcriptRef := transcriptRef a @
          (if isUser then ''You'' else persona_name persona) @ '': '' @ said @ [CHR 0x0A],
       transcript := transcript a @
          (if isUser then ''You'' else persona_name persona) @ '': '' @ said @ [CHR 0x0A],
       timeouts := timeouts a @
          (if \<not> isUser \<and> str_includes said END_CALL then [clock a + END_CALL_DELAY] else [])\<rparr>"
  using assms by (simp add: onTranscript_def Let_def)

lemma elapse_nothing_due:
  assumes "\<forall>d \<in> set (timeouts a). clock a + dt < d"
  shows "elapse dt (a, w) = (a\<lparr>clock := clock a + dt\<rparr>, w)"
proof -
  from assms have "filter (\<lambda>d. d \<le> clock a + dt) (timeouts a) = []"
    by (auto simp add: filter_empty_conv)
  moreover from assms have "filter (\<lambda>d. \<not> d \<le> clock a + dt) (timeouts a) = timeouts a"
    by (auto simp add: filter_id_conv)
  ultimately show ?thesis
    by (simp add: elapse_def Let_def)
qed

lemma elapse_one_due:
  assumes "timeouts a = [d]" and "d \<le> clock a + dt"
  shows "elapse dt (a, w) = handleHangUp (a\<lparr>clock := clock a + dt, timeouts := []\<rparr>, w)"
  using assms by (simp add: elapse_def Let_def)

text \<open>The marker is found wherever it stands in the text.\<close>

lemma str_includes_iff: "str_includes s m \<longleftrightarrow> sublist m s"
  by (induction s) (auto simp add: sublist_Cons_right)

text \<open>
  Claim C7, as stated, fails once the component has been unmounted: a persona-side
  transcript with the marker reaches the callback and nothing is scheduled.
\<close>

theorem end_call_marker_counterexample:
  "str_includes ''Goodbye. [[END_CALL]]'' END_CALL \<and>
   \<not> isMountedRef (fst unmounted_call) \<and>
   timeouts (onTranscript sample_persona ''Goodbye. [[END_CALL]]'' False (fst unmounted_call)) = []"
proof -
  have u: "\<not> isMountedRef (fst unmounted_call)" "timeouts (fst unmounted_call) = []"
    by (simp_all add: unmounted_call_def connected_call_eq cleanup_def Let_def case_prod_beta
          mounted_ActiveCall_def)
  then show ?thesis
    by (simp add: onTranscript_def END_CALL_def)
qed

text \<open>
  Claim C7, amended. While the component is mounted, a transcript event is appended to
  the transcript with its speaker, and it sets the hang-up timeout, due a fixed 3000
  milliseconds later, exactly when it is persona-side and its text contains the marker
  \<^verbatim>\<open>[[END_CALL]]\<close>; the callback itself neither disconnects the client nor calls
  \<^verbatim>\<open>onEndCall\<close>. With no other timeout pending, nothing happens to the call while less
  than the delay has elapsed, and once the delay has elapsed \<^verbatim>\<open>handleHangUp\<close> runs:
  the client is disconnected and released and \<^verbatim>\<open>onEndCall\<close> receives the
  accumulated transcript. Once the component is unmounted, the callback does nothing.
\<close>

theorem end_call_marker_schedules_hangup:
  "(isMountedRef a \<longrightarrow>
      (let a' = onTranscript persona said isUser a in
         timeouts a' = timeouts a @
           (if \<not> isUser \<and> str_includes said END_CALL then [clock a + END_CALL_DELAY] else []) \<and>
         END_CALL_DELAY = 3000 \<and>
         transcriptRef a' = transcriptRef a @
           (if isUser then ''You'' else persona_name persona) @ '': '' @ said @ [CHR 0x0A] \<and>
         onEndCall_calls a' = onEndCall_calls a \<and> client a' = client a \<and>
         clock a' = clock a \<and>
         (\<not> isUser \<and> str_includes said END_CALL \<and> timeouts a = [] \<longrightarrow>
            (\<forall>dt < END_CALL_DELAY. elapse dt (a', w) = (a'\<lparr>clock := clock a + dt\<rparr>, w)) \<and>
            (\<forall>dt \<ge> END_CALL_DELAY.
               elapse dt (a', w) = handleHangUp (a'\<lparr>clock := clock a + dt, timeouts := []\<rparr>, w) \<and>
               onEndCall_calls (fst (elapse dt (a', w))) = onEndCall_calls a @ [transcriptRef a'] \<and>
               (\<forall>c. liveClientRef a \<and> client a = Some c \<longrightarrow>
                  (\<exists>c'. client (fst (elapse dt (a', w))) = Some c' \<and> released c')))))) \<and>
   (\<not> isMountedRef a \<longrightarrow> onTranscript persona said isUser a = a)"
proof (intro conjI impI)
  assume m: "isMountedRef a"
  let ?a = "onTranscript persona said isUser a"
  note eq = onTranscript_mounted [OF m, of persona said isUser]
  have basic: "timeouts ?a = timeouts a @
      (if \<not> isUser \<and> str_includes said END_CALL then [clock a + END_CALL_DELAY] else [])"
    "transcriptRef ?a = transcriptRef a @
      (if isUser then ''You'' else persona_name persona) @ '': '' @ said @ [CHR 0x0A]"
    "onEndCall_calls ?a = onEndCall_calls a" "client ?a = client a" "clock ?a = clock a"
    "liveClientRef ?a = liveClientRef a"
    by (simp_all add: eq)
  have fire: "(\<forall>dt < END_CALL_DELAY. elapse dt (?a, w) = (?a\<lparr>clock := clock a + dt\<rparr>, w)) \<and>
      (\<forall>dt \<ge> END_CALL_DELAY.
         elapse dt (?a, w) = handleHangUp (?a\<lparr>clock := clock a + dt, timeouts := []\<rparr>, w) \<and>
         onEndCall_calls (fst (elapse dt (?a, w))) = onEndCall_calls a @ [transcriptRef ?a] \<and>
         (\<forall>c. liveClientRef a \<and> client a = Some c \<longrightarrow>
            (\<exists>c'. client (fst (elapse dt (?a, w))) = Some c' \<and> released c')))"
    if marker: "\<not> isUser \<and> str_includes said END_CALL \<and> timeouts a = []"
  proof (intro conjI allI impI)
    fix dt
    assume "dt < END_CALL_DELAY"
    with marker basic have "\<forall>d \<in> set (timeouts ?a). clock ?a + dt < d"
      by simp
    from elapse_nothing_due [OF this, of w] basic(5)
    show "elapse dt (?a, w) = (?a\<lparr>clock := clock a + dt\<rparr>, w)"
      by simp
  next
    fix dt
    assume late: "END_CALL_DELAY \<le> dt"
    from marker basic have one: "timeouts ?a = [clock a + END_CALL_DELAY]"
      by simp
    from late basic(5) have due: "clock a + END_CALL_DELAY \<le> clock ?a + dt"
      by simp
    from elapse_one_due [OF one due, of w] basic(5)
    show el: "elapse dt (?a, w) = handleHangUp (?a\<lparr>clock := clock a + dt, timeouts := []\<rparr>, w)"
      by simp
    show "onEndCall_calls (fst (elapse dt (?a, w))) = onEndCall_calls a @ [transcriptRef ?a]"
      by (simp add: el handleHangUp_calls basic)
    fix c
    assume "liveClientRef a \<and> client a = Some c"
    with basic have "liveClientRef (?a\<lparr>clock := clock a + dt, timeouts := []\<rparr>)"
      "client (?a\<lparr>clock := clock a + dt, timeouts := []\<rparr>) = Some c"
      by simp_all
    from handleHangUp_client [OF this, of w]
    show "\<exists>c'. client (fst (elapse dt (?a, w))) = Some c' \<and> released c'"
      by (simp add: el released_disconnect)
  qed
  have delay: "END_CALL_DELAY = 3000"
    by (simp add: END_CALL_DELAY_def)
  have "\<not> isUser \<and> str_includes said END_CALL \<and> timeouts a = [] \<longrightarrow>
      (\<forall>dt < END_CALL_DELAY. elapse dt (?a, w) = (?a\<lparr>clock := clock a + dt\<rparr>, w)) \<and>
      (\<forall>dt \<ge> END_CALL_DELAY.
         elapse dt (?a, w) = handleHangUp (?a\<lparr>clock := clock a + dt, timeouts := []\<rparr>, w) \<and>
         onEndCall_calls (fst (elapse dt (?a, w))) = onEndCall_calls a @ [transcriptRef ?a] \<and>
         (\<forall>c. liveClientRef a \<and> client a = Some c \<longrightarrow>
            (\<exists>c'. client (fst (elapse dt (?a, w))) = Some c' \<and> released c')))"
    by (rule impI) (rule fire)
  with basic(1-5) delay show "let a' = onTranscript persona said isUser a in
         timeouts a' = timeouts a @
           (if \<not> isUser \<and> str_includes said END_CALL then [clock a + END_CALL_DELAY] else []) \<and>
         END_CALL_DELAY = 3000 \<and>
         transcriptRef a' = transcriptRef a @
           (if isUser then ''You'' else persona_name persona) @ '': '' @ said @ [CHR 0x0A] \<and>
         onEndCall_calls a' = onEndCall_calls a \<and> client a' = client a \<and>
         clock a' = clock a \<and>
         (\<not> isUser \<and> str_includes said END_CALL \<and> timeouts a = [] \<longrightarrow>
            (\<forall>dt < END_CALL_DELAY. elapse dt (a', w) = (a'\<lparr>clock := clock a + dt\<rparr>, w)) \<and>
            (\<forall>dt \<ge> END_CALL_DELAY.
               elapse dt (a', w) = handleHangUp (a'\<lparr>clock := clock a + dt, timeouts := []\<rparr>, w) \<and>
               onEndCall_calls (fst (elapse dt (a', w))) = onEndCall_calls a @ [transcriptRef a'] \<and>
               (\<forall>c. liveClientRef a \<and> client a = Some c \<longrightarrow>
                  (\<exists>c'. client (fst (elapse dt (a', w))) = Some c' \<and> released c'))))"
    unfolding Let_def by blast
next
  assume "\<not> isMountedRef a"
  then show "onTranscript persona said isUser a = a"
    by (simp add: onTranscript_def)
qed

theorem end_call_marker_schedules_hangup_witness:
  "isMountedRef (fst connected_call) \<and> timeouts (fst connected_call) = [] \<and>
   liveClientRef (fst connected_call) \<and>
   client (fst connected_call) = Some (fst connected_state) \<and>
   str_includes ''Goodbye. [[END_CALL]]'' END_CALL \<and>
   \<not> str_includes ''Goodbye.'' END_CALL \<and>
   timeouts (onTranscript sample_persona ''Goodbye. [[END_CALL]]'' False (fst connected_call))
     = [3000] \<and>
   timeouts (onTranscript sample_persona ''Goodbye. [[END_CALL]]'' True (fst connected_call)) = [] \<and>
   timeouts (onTranscript sample_persona ''Goodbye.'' False (fst connected_call)) = [] \<and>
   onEndCall_calls
     (fst (elapse 2999
        (onTranscript sample_persona ''Goodbye. [[END_CALL]]'' False (fst connected_call),
         snd connected_call))) = [] \<and>
   onEndCall_calls
     (fst (elapse 3000
        (onTranscript sample_persona ''Goodbye. [[END_CALL]]'' False (fst connected_call),
         snd connected_call)))
     = [''Mr. Johnson (Location): Goodbye. [[END_CALL]]'' @ [CHR 0x0A]] \<and>
   (\<exists>c'. client
      (fst (elapse 3000
         (onTranscript sample_persona ''Goodbye. [[END_CALL]]'' False (fst connected_call),
          snd connected_call))) = Some c' \<and> released c') \<and>
   \<not> isMountedRef (fst unmounted_call) \<and>
   onTranscript sample_persona ''Goodbye. [[END_CALL]]'' False (fst unmounted_call)
     = fst unmounted_call"
proof -
  have pre: "isMountedRef (fst connected_call)" "timeouts (fst connected_call) = []"
    "liveClientRef (fst connected_call)"
    "client (fst connected_call) = Some (fst connected_state)"
    "clock (fst connected_call) = 0" "onEndCall_calls (fst connected_call) = []"
    "transcriptRef (fst connected_call) = []"
    by (simp_all add: connected_call_eq mounted_ActiveCall_def)
  have marker: "str_includes ''Goodbye. [[END_CALL]]'' END_CALL"
    "\<not> str_includes ''Goodbye.'' END_CALL"
    by (simp_all add: END_CALL_def)
  have un: "\<not> isMountedRef (fst unmounted_call)"
    by (simp add: unmounted_call_def connected_call_eq cleanup_def Let_def case_prod_beta
          mounted_ActiveCall_def)
  note persona_side = end_call_marker_schedules_hangup
    [where a = "fst connected_call" and persona = sample_persona
       and said = "''Goodbye. [[END_CALL]]''" and isUser = False and w = "snd connected_call",
     unfolded Let_def]
  note user_side = end_call_marker_schedules_hangup
    [where a = "fst connected_call" and persona = sample_persona
       and said = "''Goodbye. [[END_CALL]]''" and isUser = True and w = "snd connected_call",
     unfolded Let_def]
  note no_marker = end_call_marker_schedules_hangup
    [where a = "fst connected_call" and persona = sample_persona
       and said = "''Goodbye.''" and isUser = False and w = "snd connected_call",
     unfolded Let_def]
  note unmounted = end_call_marker_schedules_hangup
    [where a = "fst unmounted_call" and persona = sample_persona
       and said = "''Goodbye. [[END_CALL]]''" and isUser = False and w = "snd unmounted_call",
     unfolded Let_def]
  let ?a = "onTranscript sample_persona ''Goodbye. [[END_CALL]]'' False (fst connected_call)"
  have name: "persona_name sample_persona = ''Mr. Johnson (Location)''"
    by (simp add: sample_persona_def)
  note q = persona_side [THEN conjunct1, THEN mp, OF pre(1)]
  from q pre(2,5) have t1: "timeouts ?a = [3000]"
    by (simp add: END_CALL_def END_CALL_DELAY_def)
  from q pre(7) name
  have tr: "transcriptRef ?a = ''Mr. Johnson (Location): Goodbye. [[END_CALL]]'' @ [CHR 0x0A]"
    by simp
  from q pre(6) have calls: "onEndCall_calls ?a = []"
    by simp
  have mk: "\<not> False \<and> str_includes ''Goodbye. [[END_CALL]]'' END_CALL \<and>
      timeouts (fst connected_call) = []"
    using marker(1) pre(2) by blast
  from q mk
  have early: "\<forall>dt < END_CALL_DELAY.
      elapse dt (?a, snd connected_call) = (?a\<lparr>clock := clock (fst connected_call) + dt\<rparr>,
        snd connected_call)"
    and late: "\<forall>dt \<ge> END_CALL_DELAY.
      onEndCall_calls (fst (elapse dt (?a, snd connected_call)))
        = onEndCall_calls (fst connected_call) @ [transcriptRef ?a] \<and>
      (\<forall>c. liveClientRef (fst connected_call) \<and> client (fst connected_call) = Some c \<longrightarrow>
         (\<exists>c'. client (fst (elapse dt (?a, snd connected_call))) = Some c' \<and> released c'))"
    by blast+
  have "(2999::nat) < END_CALL_DELAY" "END_CALL_DELAY \<le> (3000::nat)"
    by (simp_all add: END_CALL_DELAY_def)
  note e = early [rule_format, OF this(1)] late [rule_format, OF this(2)]
  from e(1) calls
  have e1: "onEndCall_calls (fst (elapse 2999 (?a, snd connected_call))) = []"
    by simp
  from e(2) tr pre(6)
  have e2: "onEndCall_calls (fst (elapse 3000 (?a, snd connected_call)))
      = [''Mr. Johnson (Location): Goodbye. [[END_CALL]]'' @ [CHR 0x0A]]"
    by simp
  from e(2) pre(3,4)
  have e3: "\<exists>c'. client (fst (elapse 3000 (?a, snd connected_call))) = Some c' \<and> released c'"
    by blast
  from user_side [THEN conjunct1, THEN mp, OF pre(1)] pre(2)
  have t2: "timeouts (onTranscript sample_persona ''Goodbye. [[END_CALL]]'' True
      (fst connected_call)) = []"
    by simp
  from no_marker [THEN conjunct1, THEN mp, OF pre(1)] pre(2)
  have t3: "timeouts (onTranscript sample_persona ''Goodbye.'' False (fst connected_call)) = []"
    by (simp add: END_CALL_def)
  from unmounted [THEN conjunct2, THEN mp, OF un]
  have t4: "onTranscript sample_persona ''Goodbye. [[END_CALL]]'' False (fst unmounted_call)
      = fst unmounted_call" .
  show ?thesis
    using pre(1-4) marker t1 t2 t3 e1 e2 e3 un t4 by blast
qed

subsection \<open>C4: a \<^verbatim>\<open>connect()\<close> that fails\<close>

lemma fold_grant_track_other:
  "r \<notin> fst ` set rks \<Longrightarrow> fold grant_track rks f0 r = f0 r"
  by (induction rks arbitrary: f0) (auto simp add: grant_track_def)

lemma fold_grant_track_fresh:
  "r \<in> fst ` set rks \<Longrightarrow> \<exists>k. fold grant_track rks f0 r = new_track k"
proof (induction rks arbitrary: f0)
  case Nil
  then show ?case by simp
next
  case (Cons x rks)
  show ?case
  proof (cases "r \<in> fst ` set rks")
    case True
    from Cons.IH [OF True] show ?thesis by simp
  next
    case False
    with Cons.prems have r: "r = fst x" by auto
    have "fold grant_track (x # rks) f0 r = fold grant_track rks (grant_track x f0) r"
      by simp
    also have "\<dots> = grant_track x f0 r"
      using False by (rule fold_grant_track_other)
    also have "\<dots> = new_track (snd x)"
      using r by (simp add: grant_track_def)
    finally show ?thesis by blast
  qed
qed

lemma grant_stream_live:
  assumes "t \<in> set (fst (grant_stream ks w))"
  shows "\<not> ended (tracks (snd (grant_stream ks w)) t)"
proof -
  have "map fst (zip [next_ref w ..< next_ref w + length ks] ks)
      = [next_ref w ..< next_ref w + length ks]"
    by simp
  then have "fst ` set (zip [next_ref w ..< next_ref w + length ks] ks)
      = set [next_ref w ..< next_ref w + length ks]"
    by (metis set_map)
  with assms have "t \<in> fst ` set (zip [next_ref w ..< next_ref w + length ks] ks)"
    by (simp add: grant_stream_def Let_def)
  from fold_grant_track_fresh [OF this, of "tracks w"]
  show ?thesis
    by (auto simp add: grant_stream_def Let_def new_track_def)
qed

lemma grant_stream_frame:
  "contexts (snd (grant_stream ks w)) = contexts w"
  "mic_requests (snd (grant_stream ks w)) = mic_requests w"
  by (simp_all add: grant_stream_def Let_def)

text \<open>The two failures after the first acquisition, as one update each.\<close>

lemma connect_mic_denied:
  assumes "\<not> isConnected c" and "audio_supported env" and "mic env = Inl e"
  shows "connect env (c, w) =
     (Some e,
      c\<lparr>inputAudioContext := Some (next_ref w), outputAudioContext := Some (Suc (next_ref w))\<rparr>,
      w\<lparr>next_ref := Suc (Suc (next_ref w)),
        contexts := (contexts w)
          (next_ref w := (new_context (device_rate env))\<lparr>ctx_state := Running\<rparr>,
           Suc (next_ref w) := (new_context (device_rate env))\<lparr>ctx_state := Running\<rparr>),
        mic_requests := Suc (mic_requests w)\<rparr>)"
  using assms by (simp add: connect_def Let_def resume_def)

lemma connect_rejected:
  assumes "\<not> isConnected c" and "audio_supported env" and "mic env = Inr ks"
    and "remote env = Some e"
  shows "connect env (c, w) =
     (let w3 = w\<lparr>next_ref := Suc (Suc (next_ref w)),
                 contexts := (contexts w)
                   (next_ref w := (new_context (device_rate env))\<lparr>ctx_state := Running\<rparr>,
                    Suc (next_ref w) := (new_context (device_rate env))\<lparr>ctx_state := Running\<rparr>),
                 mic_requests := Suc (mic_requests w)\<rparr>
      in (Some e,
          c\<lparr>inputAudioContext := Some (next_ref w), outputAudioContext := Some (Suc (next_ref w)),
            stream := Some (fst (grant_stream ks w3)), sessionPromise := Some (Rejected e)\<rparr>,
          (snd (grant_stream ks w3))
            \<lparr>sessions_opened := Suc (sessions_opened (snd (grant_stream ks w3)))\<rparr>))"
  using assms by (simp add: connect_def Let_def resume_def case_prod_beta)

lemma connect_unsupported:
  assumes "\<not> isConnected c" and "\<not> audio_supported env"
  shows "connect env (c, w) = (Some (Error ''AudioContext not supported in this browser''), c, w)"
  using assms by (simp add: connect_def)

lemma startCall_failed:
  assumes "api_key env = Some k" and "k \<noteq> []"
    and "connect (answers env) (new_LiveClient, w) = (Some e, c', w')"
    and "isMountedRef a" and "\<not> ignore a"
  shows "startCall env (a, w) =
     (a\<lparr>client := Some c', liveClientRef := True, status := Failed,
        errorMessage := (case e of Error msg \<Rightarrow> if msg = [] then ''Connection failed'' else msg)\<rparr>,
      w')"
  using assms by (simp add: startCall_def startCall_catch_def Let_def)

lemma startCall_no_key:
  assumes "api_key env = None \<or> api_key env = Some []" and "isMountedRef a" and "\<not> ignore a"
  shows "startCall env (a, w) =
     (a\<lparr>status := Failed,
        errorMessage := ''API Key not found. Please check your deployment settings. Ensure you have set 'GEMINI_API_KEY' in your environment variables.''\<rparr>,
      w)"
  using assms by (auto simp add: startCall_def startCall_catch_def)

lemma cleanup_client:
  assumes "client a = Some c"
  shows "client (fst (cleanup (a, w))) = Some (fst (disconnect (c, w))) \<and>
         snd (cleanup (a, w)) = snd (disconnect (c, w))"
  using assms by (simp add: cleanup_def Let_def case_prod_beta)

lemma connect_denying:
  "connect denying_env (new_LiveClient, initial_world) =
     (Some (Error ''Permission denied''),
      new_LiveClient\<lparr>inputAudioContext := Some 10, outputAudioContext := Some 11\<rparr>,
      initial_world
        \<lparr>next_ref := 12,
         contexts := (contexts initial_world)
           (10 := (new_context 48000)\<lparr>ctx_state := Running\<rparr>,
            11 := (new_context 48000)\<lparr>ctx_state := Running\<rparr>),
         mic_requests := 1\<rparr>)"
proof -
  have "\<not> isConnected new_LiveClient" "audio_supported denying_env"
    "mic denying_env = Inl (Error ''Permission denied'')"
    by (simp_all add: new_LiveClient_def denying_env_def)
  from connect_mic_denied [OF this, of initial_world]
  have "connect denying_env (new_LiveClient, initial_world) =
     (Some (Error ''Permission denied''),
      new_LiveClient\<lparr>inputAudioContext := Some (next_ref initial_world),
        outputAudioContext := Some (Suc (next_ref initial_world))\<rparr>,
      initial_world
        \<lparr>next_ref := Suc (Suc (next_ref initial_world)),
         contexts := (contexts initial_world)
           (next_ref initial_world :=
              (new_context (device_rate denying_env))\<lparr>ctx_state := Running\<rparr>,
            Suc (next_ref initial_world) :=
              (new_context (device_rate denying_env))\<lparr>ctx_state := Running\<rparr>),
         mic_requests := Suc (mic_requests initial_world)\<rparr>)" .
  moreover have "next_ref initial_world = 10" "mic_requests initial_world = 0"
    "device_rate denying_env = 48000"
    by (simp_all add: initial_world_def denying_env_def)
  ultimately show ?thesis
    by simp
qed

lemma connect_rejecting:
  "fst (connect rejecting_env (new_LiveClient, initial_world)) = Some (Error ''403'')"
  "fst (snd (connect rejecting_env (new_LiveClient, initial_world))) =
     new_LiveClient\<lparr>inputAudioContext := Some 10, outputAudioContext := Some 11,
       stream := Some [12], sessionPromise := Some (Rejected (Error ''403''))\<rparr>"
  "ctx_state (contexts (snd (snd (connect rejecting_env (new_LiveClient, initial_world)))) 10)
     = Running"
  "ctx_state (contexts (snd (snd (connect rejecting_env (new_LiveClient, initial_world)))) 11)
     = Running"
  "\<not> ended (tracks (snd (snd (connect rejecting_env (new_LiveClient, initial_world)))) 12)"
proof -
  have pre: "\<not> isConnected new_LiveClient" "audio_supported rejecting_env"
    "mic rejecting_env = Inr [AudioKind]" "remote rejecting_env = Some (Error ''403'')"
    by (simp_all add: new_LiveClient_def rejecting_env_def)
  note eq = connect_rejected [OF pre, of initial_world]
  show "fst (connect rejecting_env (new_LiveClient, initial_world)) = Some (Error ''403'')"
    unfolding eq by (simp add: Let_def)
  show "fst (snd (connect rejecting_env (new_LiveClient, initial_world))) =
     new_LiveClient\<lparr>inputAudioContext := Some 10, outputAudioContext := Some 11,
       stream := Some [12], sessionPromise := Some (Rejected (Error ''403''))\<rparr>"
    unfolding eq by (simp add: Let_def initial_world_def grant_stream_def)
  show "ctx_state (contexts (snd (snd (connect rejecting_env (new_LiveClient, initial_world)))) 10)
     = Running"
    unfolding eq by (simp add: Let_def initial_world_def grant_stream_def)
  show "ctx_state (contexts (snd (snd (connect rejecting_env (new_LiveClient, initial_world)))) 11)
     = Running"
    unfolding eq by (simp add: Let_def initial_world_def grant_stream_def)
  show "\<not> ended (tracks (snd (snd (connect rejecting_env (new_LiveClient, initial_world)))) 12)"
    unfolding eq
    by (simp add: Let_def initial_world_def grant_stream_def grant_track_def new_track_def)
qed

text \<open>
  Claim C4, as stated, fails when the microphone is refused: \<^verbatim>\<open>connect()\<close> throws with
  both audio contexts still running, and \<^verbatim>\<open>startCall\<close> shows the error state with
  the contexts still running; when the remote endpoint rejects the session, the error
  state is shown with the microphone track still live.
\<close>

theorem connect_failure_counterexample:
  "fst (connect denying_env (new_LiveClient, initial_world)) = Some (Error ''Permission denied'') \<and>
   inputAudioContext (fst (snd (connect denying_env (new_LiveClient, initial_world)))) = Some 10 \<and>
   ctx_state (contexts (snd (snd (connect denying_env (new_LiveClient, initial_world)))) 10)
     = Running \<and>
   status (fst (startCall denied_start_env (mounted_ActiveCall, initial_world))) = Failed \<and>
   ctx_state (contexts (snd (startCall denied_start_env (mounted_ActiveCall, initial_world))) 10)
     = Running \<and>
   ctx_state (contexts (snd (startCall denied_start_env (mounted_ActiveCall, initial_world))) 11)
     = Running \<and>
   status (fst (startCall rejected_start_env (mounted_ActiveCall, initial_world))) = Failed \<and>
   \<not> ended (tracks (snd (startCall rejected_start_env (mounted_ActiveCall, initial_world))) 12)"
proof -
  have m: "isMountedRef mounted_ActiveCall" "\<not> ignore mounted_ActiveCall"
    by (simp_all add: mounted_ActiveCall_def)
  have d: "api_key denied_start_env = Some ''key''" "''key'' \<noteq> []"
    "answers denied_start_env = denying_env"
    by (simp_all add: denied_start_env_def)
  have r: "api_key rejected_start_env = Some ''key''" "answers rejected_start_env = rejecting_env"
    by (simp_all add: rejected_start_env_def)
  obtain c' w' where rej: "connect rejecting_env (new_LiveClient, initial_world)
      = (Some (Error ''403''), c', w')"
    using connect_rejecting(1) by (cases "connect rejecting_env (new_LiveClient, initial_world)") simp
  from connect_rejecting(5) rej have live: "\<not> ended (tracks w' 12)"
    by simp
  have s1: "startCall denied_start_env (mounted_ActiveCall, initial_world) =
      (mounted_ActiveCall
         \<lparr>client := Some (new_LiveClient\<lparr>inputAudioContext := Some 10,
                                          outputAudioContext := Some 11\<rparr>),
          liveClientRef := True, status := Failed, errorMessage := ''Permission denied''\<rparr>,
       initial_world
        \<lparr>next_ref := 12,
         contexts := (contexts initial_world)
           (10 := (new_context 48000)\<lparr>ctx_state := Running\<rparr>,
            11 := (new_context 48000)\<lparr>ctx_state := Running\<rparr>),
         mic_requests := 1\<rparr>)"
    using startCall_failed [OF d(1,2) _ m, where w = initial_world] connect_denying d(3)
    by simp
  have s2: "startCall rejected_start_env (mounted_ActiveCall, initial_world) =
      (mounted_ActiveCall
         \<lparr>client := Some c', liveClientRef := True, status := Failed, errorMessage := ''403''\<rparr>, w')"
    using startCall_failed [OF r(1) d(2) _ m, where w = initial_world] rej r(2)
    by simp
  show ?thesis
    by (simp add: connect_denying s1 s2 live)
qed

text \<open>
  Claim C4, amended. When \<^verbatim>\<open>connect()\<close> fails because the microphone is refused or
  because the remote endpoint rejects the session, it throws the error with
  \<^verbatim>\<open>isConnected\<close> false and with the client still holding what it had acquired:
  both audio contexts, running, and after a rejection also the granted stream, its
  tracks live, and the rejected session promise. A \<^verbatim>\<open>disconnect()\<close> on that client
  releases them: the contexts are closed, the tracks stopped, every field is
  \<^verbatim>\<open>null\<close>. In \<^verbatim>\<open>startCall\<close>, on a mounted component, a missing credential gives
  the error state before any client or resource exists; a failed \<^verbatim>\<open>connect()\<close> gives
  the error state with the client kept as \<^verbatim>\<open>connect()\<close> left it, and the cleanup of
  the component is what disconnects it.
\<close>

theorem connect_failure_defers_release:
  "(\<not> isConnected c \<and> audio_supported env \<and> mic env = Inl e \<longrightarrow>
      (case connect env (c, w) of (r, c', w') \<Rightarrow>
         r = Some e \<and> \<not> isConnected c' \<and>
         inputAudioContext c' = Some (next_ref w) \<and>
         outputAudioContext c' = Some (Suc (next_ref w)) \<and>
         ctx_state (contexts w' (next_ref w)) = Running \<and>
         ctx_state (contexts w' (Suc (next_ref w))) = Running \<and>
         (case disconnect (c', w') of (c'', w'') \<Rightarrow>
            released c'' \<and>
            ctx_state (contexts w'' (next_ref w)) = Closed \<and>
            ctx_state (contexts w'' (Suc (next_ref w))) = Closed))) \<and>
   (\<not> isConnected c \<and> audio_supported env \<and> mic env = Inr ks \<and> remote env = Some e \<longrightarrow>
      (case connect env (c, w) of (r, c', w') \<Rightarrow>
         r = Some e \<and> \<not> isConnected c' \<and> sessionPromise c' = Some (Rejected e) \<and>
         stream c' \<noteq> None \<and>
         inputAudioContext c' = Some (next_ref w) \<and>
         outputAudioContext c' = Some (Suc (next_ref w)) \<and>
         ctx_state (contexts w' (next_ref w)) = Running \<and>
         ctx_state (contexts w' (Suc (next_ref w))) = Running \<and>
         (\<forall>t \<in> stream_tracks c'. \<not> ended (tracks w' t)) \<and>
         (case disconnect (c', w') of (c'', w'') \<Rightarrow>
            released c'' \<and>
            ctx_state (contexts w'' (next_ref w)) = Closed \<and>
            ctx_state (contexts w'' (Suc (next_ref w))) = Closed \<and>
            (\<forall>t \<in> stream_tracks c'. ended (tracks w'' t))))) \<and>
   (isMountedRef a \<and> \<not> ignore a \<longrightarrow>
      (api_key senv = None \<or> api_key senv = Some [] \<longrightarrow>
         (case startCall senv (a, w) of (a', w') \<Rightarrow>
            status a' = Failed \<and> client a' = client a \<and> w' = w)) \<and>
      (\<forall>k err c1 w1.
         api_key senv = Some k \<and> k \<noteq> [] \<and>
         connect (answers senv) (new_LiveClient, w) = (Some err, c1, w1) \<longrightarrow>
         (case startCall senv (a, w) of (a', w') \<Rightarrow>
            status a' = Failed \<and> client a' = Some c1 \<and> w' = w1 \<and>
            (case cleanup (a', w') of (a'', w'') \<Rightarrow>
               client a'' = Some (fst (disconnect (c1, w1))) \<and>
               w'' = snd (disconnect (c1, w1)) \<and>
               released (fst (disconnect (c1, w1)))))))"
proof (intro conjI impI allI)
  assume "\<not> isConnected c \<and> audio_supported env \<and> mic env = Inl e"
  then have pre: "\<not> isConnected c" "audio_supported env" "mic env = Inl e"
    by simp_all
  show "case connect env (c, w) of (r, c', w') \<Rightarrow>
         r = Some e \<and> \<not> isConnected c' \<and>
         inputAudioContext c' = Some (next_ref w) \<and>
         outputAudioContext c' = Some (Suc (next_ref w)) \<and>
         ctx_state (contexts w' (next_ref w)) = Running \<and>
         ctx_state (contexts w' (Suc (next_ref w))) = Running \<and>
         (case disconnect (c', w') of (c'', w'') \<Rightarrow>
            released c'' \<and>
            ctx_state (contexts w'' (next_ref w)) = Closed \<and>
            ctx_state (contexts w'' (Suc (next_ref w))) = Closed)"
    using pre(1)
    by (simp add: connect_mic_denied [OF pre] disconnect_eq released_def)
next
  assume "\<not> isConnected c \<and> audio_supported env \<and> mic env = Inr ks \<and> remote env = Some e"
  then have pre: "\<not> isConnected c" "audio_supported env" "mic env = Inr ks"
    "remote env = Some e"
    by simp_all
  show "case connect env (c, w) of (r, c', w') \<Rightarrow>
         r = Some e \<and> \<not> isConnected c' \<and> sessionPromise c' = Some (Rejected e) \<and>
         stream c' \<noteq> None \<and>
         inputAudioContext c' = Some (next_ref w) \<and>
         outputAudioContext c' = Some (Suc (next_ref w)) \<and>
         ctx_state (contexts w' (next_ref w)) = Running \<and>
         ctx_state (contexts w' (Suc (next_ref w))) = Running \<and>
         (\<forall>t \<in> stream_tracks c'. \<not> ended (tracks w' t)) \<and>
         (case disconnect (c', w') of (c'', w'') \<Rightarrow>
            released c'' \<and>
            ctx_state (contexts w'' (next_ref w)) = Closed \<and>
            ctx_state (contexts w'' (Suc (next_ref w))) = Closed \<and>
            (\<forall>t \<in> stream_tracks c'. ended (tracks w'' t)))"
    using pre(1)
    by (simp add: connect_rejected [OF pre] Let_def disconnect_eq released_def stream_tracks_def
          getTracks_def grant_stream_live grant_stream_frame)
next
  assume "isMountedRef a \<and> \<not> ignore a" and "api_key senv = None \<or> api_key senv = Some []"
  then show "case startCall senv (a, w) of (a', w') \<Rightarrow>
      status a' = Failed \<and> client a' = client a \<and> w' = w"
    by (simp add: startCall_no_key)
next
  fix k err c1 w1
  assume m: "isMountedRef a \<and> \<not> ignore a"
    and f: "api_key senv = Some k \<and> k \<noteq> [] \<and>
      connect (answers senv) (new_LiveClient, w) = (Some err, c1, w1)"
  from f have k: "api_key senv = Some k" "k \<noteq> []"
    and cf: "connect (answers senv) (new_LiveClient, w) = (Some err, c1, w1)"
    by simp_all
  from m have mm: "isMountedRef a" "\<not> ignore a"
    by simp_all
  have eq: "startCall senv (a, w) =
      (a\<lparr>client := Some c1, liveClientRef := True, status := Failed,
         errorMessage := (case err of Error msg \<Rightarrow>
                            if msg = [] then ''Connection failed'' else msg)\<rparr>, w1)"
    by (rule startCall_failed [OF k cf mm])
  have "client (a\<lparr>client := Some c1, liveClientRef := True, status := Failed,
         errorMessage := (case err of Error msg \<Rightarrow>
                            if msg = [] then ''Connection failed'' else msg)\<rparr>) = Some c1"
    by simp
  from cleanup_client [OF this, of w1]
  show "case startCall senv (a, w) of (a', w') \<Rightarrow>
      status a' = Failed \<and> client a' = Some c1 \<and> w' = w1 \<and>
      (case cleanup (a', w') of (a'', w'') \<Rightarrow>
         client a'' = Some (fst (disconnect (c1, w1))) \<and>
         w'' = snd (disconnect (c1, w1)) \<and>
         released (fst (disconnect (c1, w1))))"
    by (simp add: eq case_prod_beta released_disconnect)
qed

theorem connect_failure_defers_release_witness:
  "\<not> isConnected new_LiveClient \<and> audio_supported denying_env \<and>
   mic denying_env = Inl (Error ''Permission denied'') \<and>
   audio_supported rejecting_env \<and> mic rejecting_env = Inr [AudioKind] \<and>
   remote rejecting_env = Some (Error ''403'') \<and>
   isMountedRef mounted_ActiveCall \<and> \<not> ignore mounted_ActiveCall \<and>
   api_key keyless_start_env = None \<and> api_key denied_start_env = Some ''key'' \<and>
   fst (connect denying_env (new_LiveClient, initial_world)) = Some (Error ''Permission denied'') \<and>
   ctx_state (contexts (snd (snd (connect denying_env (new_LiveClient, initial_world)))) 10)
     = Running \<and>
   (case disconnect (snd (connect denying_env (new_LiveClient, initial_world))) of (c'', w'') \<Rightarrow>
      released c'' \<and> ctx_state (contexts w'' 10) = Closed \<and>
      ctx_state (contexts w'' 11) = Closed) \<and>
   fst (connect rejecting_env (new_LiveClient, initial_world)) = Some (Error ''403'') \<and>
   \<not> ended (tracks (snd (snd (connect rejecting_env (new_LiveClient, initial_world)))) 12) \<and>
   (case disconnect (snd (connect rejecting_env (new_LiveClient, initial_world))) of (c'', w'') \<Rightarrow>
      released c'' \<and> ctx_state (contexts w'' 10) = Closed \<and>
      ctx_state (contexts w'' 11) = Closed \<and> ended (tracks w'' 12)) \<and>
   status (fst (startCall keyless_start_env (mounted_ActiveCall, initial_world))) = Failed \<and>
   snd (startCall keyless_start_env (mounted_ActiveCall, initial_world)) = initial_world \<and>
   status (fst (startCall denied_start_env (mounted_ActiveCall, initial_world))) = Failed \<and>
   (case cleanup (startCall denied_start_env (mounted_ActiveCall, initial_world)) of
      (a'', w'') \<Rightarrow> (\<exists>c''. client a'' = Some c'' \<and> released c''))"
proof -
  have pre: "\<not> isConnected new_LiveClient" "audio_supported denying_env"
    "mic denying_env = Inl (Error ''Permission denied'')"
    "audio_supported rejecting_env" "mic rejecting_env = Inr [AudioKind]"
    "remote rejecting_env = Some (Error ''403'')"
    "isMountedRef mounted_ActiveCall" "\<not> ignore mounted_ActiveCall"
    "api_key keyless_start_env = None" "api_key denied_start_env = Some ''key''"
    by (simp_all add: new_LiveClient_def denying_env_def rejecting_env_def mounted_ActiveCall_def
          keyless_start_env_def denied_start_env_def)
  have n: "next_ref initial_world = 10"
    by (simp add: initial_world_def)
  note denied = connect_failure_defers_release
    [where c = new_LiveClient and env = denying_env and e = "Error ''Permission denied''"
       and w = initial_world, THEN conjunct1, rule_format]
  note rejected = connect_failure_defers_release
    [where c = new_LiveClient and env = rejecting_env and e = "Error ''403''"
       and ks = "[AudioKind]" and w = initial_world, THEN conjunct2, THEN conjunct1, rule_format]
  note keyless = connect_failure_defers_release
    [where a = mounted_ActiveCall and senv = keyless_start_env and w = initial_world,
     THEN conjunct2, THEN conjunct2, rule_format, THEN conjunct1, rule_format]
  note failed = connect_failure_defers_release
    [where a = mounted_ActiveCall and senv = denied_start_env and w = initial_world,
     THEN conjunct2, THEN conjunct2, rule_format, THEN conjunct2, rule_format]
  obtain c1 w1 where cd: "connect denying_env (new_LiveClient, initial_world)
      = (Some (Error ''Permission denied''), c1, w1)"
    using connect_denying by blast
  obtain c2 w2 where cr: "connect rejecting_env (new_LiveClient, initial_world)
      = (Some (Error ''403''), c2, w2)"
    using connect_rejecting(1)
    by (cases "connect rejecting_env (new_LiveClient, initial_world)") simp
  from connect_rejecting(2) cr have st: "stream_tracks c2 = {12}"
    by (simp add: stream_tracks_def new_LiveClient_def getTracks_def)
  from denied pre(1-3) cd n
  have a: "ctx_state (contexts w1 10) = Running"
    "case disconnect (c1, w1) of (c'', w'') \<Rightarrow>
      released c'' \<and> ctx_state (contexts w'' 10) = Closed \<and>
      ctx_state (contexts w'' 11) = Closed"
    by simp_all
  from rejected pre(1,4-6) cr n st
  have b: "\<not> ended (tracks w2 12)"
    "case disconnect (c2, w2) of (c'', w'') \<Rightarrow>
      released c'' \<and> ctx_state (contexts w'' 10) = Closed \<and>
      ctx_state (contexts w'' 11) = Closed \<and> ended (tracks w'' 12)"
    by (simp_all add: case_prod_beta)
  from keyless pre(7-9)
  have k: "status (fst (startCall keyless_start_env (mounted_ActiveCall, initial_world))) = Failed"
    "snd (startCall keyless_start_env (mounted_ActiveCall, initial_world)) = initial_world"
    by (simp_all add: case_prod_beta)
  have "answers denied_start_env = denying_env"
    by (simp add: denied_start_env_def)
  with cd have "api_key denied_start_env = Some ''key'' \<and> ''key'' \<noteq> [] \<and>
      connect (answers denied_start_env) (new_LiveClient, initial_world)
        = (Some (Error ''Permission denied''), c1, w1)"
    using pre(10) by simp
  from failed [OF _ this] pre(7,8)
  have f: "status (fst (startCall denied_start_env (mounted_ActiveCall, initial_world))) = Failed"
    "case cleanup (startCall denied_start_env (mounted_ActiveCall, initial_world)) of
      (a'', w'') \<Rightarrow> (\<exists>c''. client a'' = Some c'' \<and> released c'')"
    by (simp_all add: case_prod_beta)
  from pre cd cr a b k f show ?thesis
    by simp
qed

end
